theory Spec2Isabelle
  imports Complex_Main "HOL-Library.AList" "HOL-Library.Multiset"
begin

section \<open>Data model (types.ts)\<close>

text \<open>
  The exercise payload of \<^verbatim>\<open>types.ts\<close>. Of a taxon and a character only the fields
  that some function reads are kept (\<^verbatim>\<open>id\<close>, \<^verbatim>\<open>name\<close>, \<^verbatim>\<open>isFossil\<close>); the other
  fields (\<^verbatim>\<open>scientificName\<close>, \<^verbatim>\<open>description\<close>, \<^verbatim>\<open>imageUrl\<close>, \<^verbatim>\<open>wikipediaUrl\<close>,
  \<^verbatim>\<open>emoji\<close>) are display text that is only rendered. An optional field is an
  \<open>option\<close>; \<^verbatim>\<open>string | null\<close> is a \<open>string option\<close>. A string is the list of its
  code units, which are below 256 in every text of the program (\<open>CHR 0xE9\<close> is the
  e with acute accent). The record
  \<^verbatim>\<open>Record<string, string[]>\<close> is an association list read with \<open>map_of\<close> (the
  first entry of a key is the one the object holds).
\<close>

record Taxon =
  t_id :: string
  t_name :: string
  isFossil :: "bool option"

record Character =
  c_id :: string
  c_name :: string

datatype Difficulty = Facile | Moyen | Difficile

record EvolutionStep =
  characterId :: "string option"
  branchingTaxonId :: "string option"

type_synonym CorrectMatrix = "(string \<times> string list) list"

record ExerciseData =
  title :: string
  difficulty :: Difficulty
  taxons :: "Taxon list"
  characters :: "Character list"
  correctMatrix :: CorrectMatrix
  evolutionOrder :: "EvolutionStep list"

datatype AppState = Setup | Loading | Info | Matrix | Tree | Success

text \<open>JavaScript truthiness of a \<^verbatim>\<open>string | null\<close>: \<^verbatim>\<open>null\<close> and the empty string are falsy.\<close>

definition truthy :: "string option \<Rightarrow> bool" where
  "truthy v = (case v of None \<Rightarrow> False | Some s \<Rightarrow> s \<noteq> [])"

section \<open>The matrix exercise (components/MatrixExercise.tsx)\<close>

text \<open>
  \<^verbatim>\<open>userMatrix\<close> is a record of records of \<^verbatim>\<open>boolean | undefined\<close>. Every read in the
  component goes through \<^verbatim>\<open>userMatrix[t]?.[c]\<close>, for which a missing row, a missing key
  and a key holding \<^verbatim>\<open>undefined\<close> all give \<^verbatim>\<open>undefined\<close>; the model keeps rows as
  partial maps and writes \<^verbatim>\<open>undefined\<close> as \<open>None\<close>.
\<close>

type_synonym UserMatrix = "string \<Rightarrow> (string \<Rightarrow> bool option) option"

record MatrixState =
  userMatrix :: UserMatrix
  showErrors :: bool
  success :: bool

text \<open>\<^verbatim>\<open>prev[taxonId]?.[charId]\<close>\<close>

definition cellOf :: "UserMatrix \<Rightarrow> string \<Rightarrow> string \<Rightarrow> bool option" where
  "cellOf um taxonId charId = (case um taxonId of None \<Rightarrow> None | Some row \<Rightarrow> row charId)"

text \<open>The state of a freshly mounted component: \<^verbatim>\<open>useState({})\<close>, \<^verbatim>\<open>useState(false)\<close>.\<close>

definition initialMatrixState :: MatrixState where
  "initialMatrixState = \<lparr>userMatrix = (\<lambda>_. None), showErrors = False, success = False\<rparr>"

text \<open>
  The initialising effect: one row per taxon, every cell \<^verbatim>\<open>undefined\<close>. A later taxon
  with the same id replaces the row, as the assignment \<^verbatim>\<open>initial[t.id] = {}\<close> does.
\<close>

definition initMatrix :: "Taxon list \<Rightarrow> Character list \<Rightarrow> UserMatrix" where
  "initMatrix ts cs = fold (\<lambda>t um. um(t_id t \<mapsto> (\<lambda>_. None))) ts (\<lambda>_. None)"

text \<open>The cycle of one click: \<^verbatim>\<open>undefined -> true -> false -> undefined\<close>.\<close>

definition nextVal :: "bool option \<Rightarrow> bool option" where
  "nextVal currentVal =
     (if currentVal = None then Some True
      else if currentVal = Some True then Some False
      else None)"

definition toggleCell :: "string \<Rightarrow> string \<Rightarrow> MatrixState \<Rightarrow> MatrixState" where
  "toggleCell taxonId charId st =
     (if success st then st
      else
        let prev = userMatrix st;
            row = (case prev taxonId of None \<Rightarrow> (\<lambda>_. None) | Some r \<Rightarrow> r)
        in st\<lparr>userMatrix := prev(taxonId \<mapsto> row(charId := nextVal (cellOf prev taxonId charId))),
               showErrors := False\<rparr>)"

text \<open>
  \<^verbatim>\<open>correctMatrix[t.id]?.includes(c.id)\<close>: \<^verbatim>\<open>undefined\<close> (here \<open>None\<close>) when the taxon
  is not a key of the answer key, else whether the character is listed.
\<close>

definition shouldBePresent :: "CorrectMatrix \<Rightarrow> string \<Rightarrow> string \<Rightarrow> bool option" where
  "shouldBePresent cm taxonId charId =
     (case map_of cm taxonId of None \<Rightarrow> None | Some cs \<Rightarrow> Some (charId \<in> set cs))"

text \<open>
  The body of the two nested loops of \<^verbatim>\<open>checkMatrix\<close>, on the pair of flags
  \<open>(hasErrors, allFilled)\<close>. The comparison \<^verbatim>\<open>userVal !== shouldBePresent\<close> is strict
  inequality between a boolean and a \<^verbatim>\<open>boolean | undefined\<close>.
\<close>

definition checkCell :: "UserMatrix \<Rightarrow> CorrectMatrix \<Rightarrow> Taxon \<Rightarrow> Character \<Rightarrow> bool \<times> bool \<Rightarrow> bool \<times> bool" where
  "checkCell um cm t c flags =
     (let userVal = cellOf um (t_id t) (c_id c);
          should = shouldBePresent cm (t_id t) (c_id c);
          hasErrors = fst flags;
          allFilled = snd flags;
          allFilled' = (if userVal = None then False else allFilled);
          hasErrors' = (if userVal \<noteq> None \<and> userVal \<noteq> should then True else hasErrors)
      in (hasErrors', allFilled'))"

definition checkLoops :: "UserMatrix \<Rightarrow> CorrectMatrix \<Rightarrow> Taxon list \<Rightarrow> Character list \<Rightarrow> bool \<times> bool" where
  "checkLoops um cm ts cs = fold (\<lambda>t flags. fold (checkCell um cm t) cs flags) ts (False, True)"

text \<open>
  \<^verbatim>\<open>checkMatrix\<close> returns the new component state and whether the fill-in alert was
  raised.
\<close>

definition checkMatrix :: "Taxon list \<Rightarrow> Character list \<Rightarrow> CorrectMatrix \<Rightarrow> MatrixState \<Rightarrow> MatrixState \<times> bool" where
  "checkMatrix ts cs cm st =
     (let flags = checkLoops (userMatrix st) cm ts cs;
          hasErrors = fst flags;
          allFilled = snd flags
      in if \<not> allFilled then (st, True)
         else if hasErrors then (st\<lparr>showErrors := True\<rparr>, False)
         else (st\<lparr>success := True\<rparr>, False))"

text \<open>
  The button row of the component: the check button while \<^verbatim>\<open>success\<close> is false, the
  advance button (\<^verbatim>\<open>onComplete\<close>) once it is true.
\<close>

datatype MatrixButton = Verifier | ConstruireArbre

definition matrixButton :: "MatrixState \<Rightarrow> MatrixButton" where
  "matrixButton st = (if \<not> success st then Verifier else ConstruireArbre)"

section \<open>Shuffling and the default payload (App.tsx)\<close>

text \<open>
  \<^verbatim>\<open>[a[i], a[j]] = [a[j], a[i]]\<close>: both reads happen before the two writes.
\<close>

definition swap :: "'a list \<Rightarrow> nat \<Rightarrow> nat \<Rightarrow> 'a list" where
  "swap xs i j = xs[i := xs ! j, j := xs ! i]"

text \<open>
  The Fisher-Yates loop \<^verbatim>\<open>for (i = length - 1; i > 0; i--)\<close>. The random source is the
  sequence \<open>rnd\<close> of the values \<^verbatim>\<open>Math.random()\<close> returns, \<open>k\<close> the number of calls
  made so far; \<^verbatim>\<open>j = Math.floor(Math.random() * (i + 1))\<close>. \<^verbatim>\<open>Math.random()\<close> lies in
  \<open>[0, 1)\<close>, hence \<open>j \<le> i\<close> and both indices of the swap are inside the array; the
  properties below assume exactly that of \<open>rnd\<close>, and say nothing of other sources.
\<close>

definition randomIndex :: "rat \<Rightarrow> nat \<Rightarrow> nat" where
  "randomIndex r i = nat \<lfloor>r * (of_nat i + 1)\<rfloor>"

fun shuffleLoop :: "(nat \<Rightarrow> rat) \<Rightarrow> nat \<Rightarrow> nat \<Rightarrow> 'a list \<Rightarrow> 'a list" where
  "shuffleLoop rnd k 0 newArray = newArray"
| "shuffleLoop rnd k (Suc i) newArray =
     shuffleLoop rnd (Suc k) i (swap newArray (Suc i) (randomIndex (rnd k) (Suc i)))"

definition shuffleArray :: "(nat \<Rightarrow> rat) \<Rightarrow> 'a list \<Rightarrow> 'a list" where
  "shuffleArray rnd array = shuffleLoop rnd 0 (length array - 1) array"

text \<open>
  The same function on a store of arrays, to see what it writes: an address is an index
  into the store, \<^verbatim>\<open>[...array]\<close> allocates a copy at the next free address, the loop
  updates that copy in place, and the address of the copy is returned.
\<close>

type_synonym 'a store = "'a list list"

fun shuffleLoopStore :: "(nat \<Rightarrow> rat) \<Rightarrow> nat \<Rightarrow> nat \<Rightarrow> nat \<Rightarrow> 'a store \<Rightarrow> 'a store" where
  "shuffleLoopStore rnd k 0 newArray h = h"
| "shuffleLoopStore rnd k (Suc i) newArray h =
     shuffleLoopStore rnd (Suc k) i newArray
       (h[newArray := swap (h ! newArray) (Suc i) (randomIndex (rnd k) (Suc i))])"

definition shuffleArrayStore :: "(nat \<Rightarrow> rat) \<Rightarrow> nat \<Rightarrow> 'a store \<Rightarrow> nat \<times> 'a store" where
  "shuffleArrayStore rnd array h =
     (let newArray = length h;
          h1 = h @ [h ! array]
      in (newArray, shuffleLoopStore rnd 0 (length (h1 ! newArray) - 1) newArray h1))"

definition DEFAULT_DATA :: ExerciseData where
  "DEFAULT_DATA = \<lparr>
     title = ''Vert'' @ [CHR 0xE9] @ ''br'' @ [CHR 0xE9] @ ''s Simples'',
     difficulty = Facile,
     taxons = [
       \<lparr>t_id = ''t1'', t_name = ''Sardine'', isFossil = None\<rparr>,
       \<lparr>t_id = ''t2'', t_name = ''Grenouille'', isFossil = None\<rparr>,
       \<lparr>t_id = ''t3'', t_name = ''Chat'', isFossil = None\<rparr>,
       \<lparr>t_id = ''t4'', t_name = ''Pigeon'', isFossil = None\<rparr>],
     characters = [
       \<lparr>c_id = ''c1'', c_name = ''Vert'' @ [CHR 0xE8] @ ''bres''\<rparr>,
       \<lparr>c_id = ''c2'', c_name = ''4 membres''\<rparr>,
       \<lparr>c_id = ''c3'', c_name = ''Poils''\<rparr>,
       \<lparr>c_id = ''c4'', c_name = ''Plumes''\<rparr>],
     correctMatrix = [
       (''t1'', [''c1'']),
       (''t2'', [''c1'', ''c2'']),
       (''t3'', [''c1'', ''c2'', ''c3'']),
       (''t4'', [''c1'', ''c2'', ''c4''])],
     evolutionOrder = [
       \<lparr>characterId = Some ''c1'', branchingTaxonId = Some ''t1''\<rparr>,
       \<lparr>characterId = Some ''c2'', branchingTaxonId = Some ''t2''\<rparr>,
       \<lparr>characterId = Some ''c3'', branchingTaxonId = Some ''t3''\<rparr>,
       \<lparr>characterId = Some ''c4'', branchingTaxonId = Some ''t4''\<rparr>]\<rparr>"

text \<open>
  The shuffling \<^verbatim>\<open>startExercise\<close> applies before display: taxa first, then characters,
  the second shuffle drawing from the random source where the first stopped (the first
  makes \<open>length - 1\<close> calls).
\<close>

definition shuffleData :: "(nat \<Rightarrow> rat) \<Rightarrow> ExerciseData \<Rightarrow> ExerciseData" where
  "shuffleData rnd data =
     data\<lparr>taxons := shuffleArray rnd (taxons data),
          characters := shuffleArray (\<lambda>k. rnd (k + (length (taxons data) - 1))) (characters data)\<rparr>"

text \<open>
  The invariant of the payload, "referenced ids exist": every key of the answer key and
  every branching taxon is the id of a listed taxon, every character of the answer key
  and every innovation is the id of a listed character.
\<close>

definition taxonIds :: "ExerciseData \<Rightarrow> string set" where
  "taxonIds data = set (map t_id (taxons data))"

definition characterIds :: "ExerciseData \<Rightarrow> string set" where
  "characterIds data = set (map c_id (characters data))"

definition referencedIdsExist :: "ExerciseData \<Rightarrow> bool" where
  "referencedIdsExist data \<longleftrightarrow>
     (\<forall>k \<in> set (map fst (correctMatrix data)).
        k \<in> taxonIds data \<and>
        (case map_of (correctMatrix data) k of None \<Rightarrow> True
         | Some cs \<Rightarrow> \<forall>c \<in> set cs. c \<in> characterIds data)) \<and>
     (\<forall>stp \<in> set (evolutionOrder data).
        (case branchingTaxonId stp of None \<Rightarrow> True | Some t \<Rightarrow> t \<in> taxonIds data) \<and>
        (case characterId stp of None \<Rightarrow> True | Some c \<Rightarrow> c \<in> characterIds data))"

section \<open>The generation service (generateExercise)\<close>

text \<open>
  The service talks to three things outside the program, taken as parameters:
  the environment variable \<^verbatim>\<open>process.env.API_KEY\<close>, the call
  \<^verbatim>\<open>ai.models.generateContent\<close> (which either rejects with an error or resolves to a
  response whose \<^verbatim>\<open>text\<close> may be missing) and \<^verbatim>\<open>JSON.parse\<close> (which either throws a
  \<^verbatim>\<open>SyntaxError\<close> or returns the parsed value). The prompt is a fixed text around the
  three arguments, so the request is represented by them. Here the parsed value has the
  shape \<^verbatim>\<open>RawExerciseResponse\<close> that the code casts it to, which is what the screens of
  the application are described for; what the service does with a parsed value of any
  other shape is the subject of a section of its own below.
\<close>

record RawMatrixItem =
  taxonId :: string
  presentCharacterIds :: "string list option"

record RawExerciseResponse =
  raw_title :: string
  raw_taxons :: "Taxon list"
  raw_characters :: "Character list"
  matrixList :: "RawMatrixItem list option"
  raw_evolutionOrder :: "EvolutionStep list"

record GenerateRequest =
  req_topic :: string
  req_difficulty :: Difficulty
  req_includeFossils :: bool

record World =
  API_KEY :: "string option"
  generateContent :: "GenerateRequest \<Rightarrow> string + string option"
  JSON_parse :: "string \<Rightarrow> string + RawExerciseResponse"

text \<open>
  What \<^verbatim>\<open>generateExercise\<close> can throw: its own two errors, the rejection of the request
  passed on unchanged, and the exception of \<^verbatim>\<open>JSON.parse\<close>.
\<close>

datatype error =
    ApiKeyMissing
  | RequestRejected string
  | SyntaxError string
  | ImpossibleDeGenerer

text \<open>
  \<^verbatim>\<open>correctMatrix[item.taxonId] = item.presentCharacterIds || []\<close> for each item in turn:
  a later item with the same taxon replaces the earlier one.
\<close>

definition buildCorrectMatrix :: "RawMatrixItem list option \<Rightarrow> CorrectMatrix" where
  "buildCorrectMatrix ml =
     (case ml of None \<Rightarrow> []
      | Some items \<Rightarrow>
          fold (\<lambda>item cm. AList.update (taxonId item)
                  (case presentCharacterIds item of None \<Rightarrow> [] | Some cs \<Rightarrow> cs) cm) items [])"

text \<open>
  The result is paired with the number of requests issued. \<^verbatim>\<open>!process.env.API_KEY\<close> and
  \<^verbatim>\<open>if (response.text)\<close> are truthiness tests: a missing value and the empty string
  both fail them, and both send \<^verbatim>\<open>response.text\<close> to the final \<^verbatim>\<open>throw\<close>.
\<close>

definition generateExercise ::
  "World \<Rightarrow> string \<Rightarrow> Difficulty \<Rightarrow> bool \<Rightarrow> (error + ExerciseData) \<times> nat" where
  "generateExercise w topic diff includeFossils =
     (if \<not> truthy (API_KEY w) then (Inl ApiKeyMissing, 0)
      else
        case generateContent w
               \<lparr>req_topic = topic, req_difficulty = diff, req_includeFossils = includeFossils\<rparr> of
          Inl e \<Rightarrow> (Inl (RequestRejected e), 1)
        | Inr response_text \<Rightarrow>
            (case response_text of
               None \<Rightarrow> (Inl ImpossibleDeGenerer, 1)
             | Some body \<Rightarrow>
                 if body \<noteq> [] then
                   (case JSON_parse w body of
                      Inl e \<Rightarrow> (Inl (SyntaxError e), 1)
                    | Inr rawData \<Rightarrow>
                        (Inr \<lparr>title = raw_title rawData,
                              difficulty = diff,
                              taxons = raw_taxons rawData,
                              characters = raw_characters rawData,
                              correctMatrix = buildCorrectMatrix (matrixList rawData),
                              evolutionOrder = raw_evolutionOrder rawData\<rparr>, 1))
                 else (Inl ImpossibleDeGenerer, 1)))"

section \<open>The tree builder (TreeExercise)\<close>

datatype SlotType = attribute | taxon

text \<open>
  Coordinates are JavaScript numbers; the layout is modelled in exact rational
  arithmetic. \<^verbatim>\<open>id\<close>, \<^verbatim>\<open>type\<close>, \<^verbatim>\<open>x\<close> and \<^verbatim>\<open>y\<close> of a slot carry the prefix \<open>slot_\<close>.
\<close>

record Slot =
  slot_id :: string
  slot_type :: SlotType
  slot_x :: rat
  slot_y :: rat
  expectedId :: "string option"
  filledWithId :: "string option"

record TreeState =
  slots :: "Slot list"
  selectedItemId :: "(string \<times> SlotType) option"
  success_tree :: bool
  mistakes :: nat

definition TAXON_W :: rat where "TAXON_W = 112"
definition TAXON_H :: rat where "TAXON_H = 112"
definition ATTR_W :: rat where "ATTR_W = 120"
definition ATTR_H :: rat where "ATTR_H = 40"
definition START_X :: rat where "START_X = 50"
definition STEP_X :: rat where "STEP_X = 200"
definition TAXON_TOP_Y :: rat where "TAXON_TOP_Y = 40"
definition FOSSIL_OFFSET_Y :: rat where "FOSSIL_OFFSET_Y = 100"
definition TRUNK_BASE_Y :: rat where "TRUNK_BASE_Y = 550"
definition TRUNK_TIP_Y :: rat where "TRUNK_TIP_Y = TAXON_TOP_Y + TAXON_H + 40"

text \<open>The decimal text of an index, as the template literal \<^verbatim>\<open>`attr-${index}`\<close> prints it.\<close>

fun string_of_nat :: "nat \<Rightarrow> string" where
  "string_of_nat n =
     (if n < 10 then [char_of (48 + n)]
      else string_of_nat (n div 10) @ [char_of (48 + n mod 10)])"

declare string_of_nat.simps [simp del]

text \<open>
  \<^verbatim>\<open>getTrunkPoint\<close> of the slot layout effect and of \<^verbatim>\<open>getGeometry\<close>: the same
  closure in both, over \<open>trunkBaseX\<close> and \<open>trunkTipX\<close>.
\<close>

definition trunkBaseX :: rat where
  "trunkBaseX = START_X + 100"

definition getTrunkPoint :: "rat \<Rightarrow> rat \<Rightarrow> rat \<times> rat" where
  "getTrunkPoint trunkTipX t =
     (trunkBaseX + (trunkTipX - trunkBaseX) * t,
      TRUNK_BASE_Y + (TRUNK_TIP_Y - TRUNK_BASE_Y) * t)"

definition taxonPositions :: "ExerciseData \<Rightarrow> (rat \<times> rat) list" where
  "taxonPositions data =
     map (\<lambda>index. (START_X + of_nat index * STEP_X, TAXON_TOP_Y))
       [0 ..< length (evolutionOrder data)]"

text \<open>
  \<^verbatim>\<open>trunkTipX\<close> of the layout effect reads \<^verbatim>\<open>taxonPositions[count - 1].x\<close>: with no
  evolution step that is a property read on \<^verbatim>\<open>undefined\<close>, a \<^verbatim>\<open>TypeError\<close> (\<open>None\<close>).
\<close>

definition effectTrunkTipX :: "ExerciseData \<Rightarrow> rat option" where
  "effectTrunkTipX data =
     (let cnt = length (evolutionOrder data)
      in if cnt = 0 then None
         else Some (fst (taxonPositions data ! (cnt - 1)) + TAXON_W / 2))"

text \<open>The slots one evolution step contributes (the body of the \<^verbatim>\<open>forEach\<close>).\<close>

definition attrT :: "nat \<Rightarrow> nat \<Rightarrow> rat" where
  "attrT cnt index = (of_nat index + 1 / 2) * (1 / of_nat cnt)"



definition stepSlots :: "ExerciseData \<Rightarrow> rat \<Rightarrow> nat \<Rightarrow> EvolutionStep \<Rightarrow> Slot list" where
  "stepSlots data trunkTipX index step =
     (let cnt = length (evolutionOrder data);
          attrPos = getTrunkPoint trunkTipX (attrT cnt index);
          taxonPos = taxonPositions data ! index
      in (if truthy (characterId step)
          then [\<lparr>slot_id = ''attr-'' @ string_of_nat index, slot_type = attribute,
                  slot_x = fst attrPos - ATTR_W / 2, slot_y = snd attrPos - ATTR_H / 2,
                  expectedId = characterId step, filledWithId = None\<rparr>]
          else []) @
         (if truthy (branchingTaxonId step)
          then [\<lparr>slot_id = ''taxon-'' @ string_of_nat index, slot_type = taxon,
                  slot_x = fst taxonPos, slot_y = snd taxonPos,
                  expectedId = branchingTaxonId step, filledWithId = None\<rparr>]
          else []))"

definition newSlots :: "ExerciseData \<Rightarrow> Slot list option" where
  "newSlots data =
     (case effectTrunkTipX data of None \<Rightarrow> None
      | Some trunkTipX \<Rightarrow>
          Some (concat (map (\<lambda>(index, step). stepSlots data trunkTipX index step)
                          (enumerate 0 (evolutionOrder data)))))"

text \<open>The state the layout effect leaves: the new slots, no success, no mistake.\<close>

definition initialTreeState :: "ExerciseData \<Rightarrow> TreeState option" where
  "initialTreeState data =
     (case newSlots data of None \<Rightarrow> None
      | Some ss \<Rightarrow> Some \<lparr>slots = ss, selectedItemId = None, success_tree = False, mistakes = 0\<rparr>)"

text \<open>The effect that runs once \<^verbatim>\<open>success\<close> is set: slots of fossil taxa move down.\<close>

definition fossilEffect :: "ExerciseData \<Rightarrow> TreeState \<Rightarrow> TreeState" where
  "fossilEffect data st =
     (if success_tree st
      then st\<lparr>slots := map (\<lambda>slot.
             if slot_type slot = taxon \<and> truthy (expectedId slot)
             then (case find (\<lambda>t. Some (t_id t) = expectedId slot) (taxons data) of
                     None \<Rightarrow> slot
                   | Some t \<Rightarrow> if isFossil t = Some True
                               then slot\<lparr>slot_y := TAXON_TOP_Y + FOSSIL_OFFSET_Y\<rparr> else slot)
             else slot) (slots st)\<rparr>
      else st)"

text \<open>
  \<^verbatim>\<open>slots.map(s => s.filledWithId).filter(Boolean)\<close>: the filter keeps the truthy
  entries, so neither \<^verbatim>\<open>null\<close> nor the empty string counts as placed.
\<close>

definition placedIds :: "Slot list \<Rightarrow> string list" where
  "placedIds ss = concat (map (\<lambda>v. case v of None \<Rightarrow> [] | Some s \<Rightarrow> [s])
                            (filter truthy (map filledWithId ss)))"

text \<open>\<^verbatim>\<open>getAvailableItems\<close>, one function per branch of its \<^verbatim>\<open>if\<close>.\<close>

definition availableTaxons :: "ExerciseData \<Rightarrow> TreeState \<Rightarrow> Taxon list" where
  "availableTaxons data st = filter (\<lambda>t. t_id t \<notin> set (placedIds (slots st))) (taxons data)"

definition availableCharacters :: "ExerciseData \<Rightarrow> TreeState \<Rightarrow> Character list" where
  "availableCharacters data st =
     filter (\<lambda>c. c_id c \<notin> set (placedIds (slots st))) (characters data)"

definition getAvailableItems :: "ExerciseData \<Rightarrow> TreeState \<Rightarrow> SlotType \<Rightarrow> string list" where
  "getAvailableItems data st ty =
     (if ty = taxon then map t_id (availableTaxons data st)
      else map c_id (availableCharacters data st))"

definition handleItemClick :: "string \<Rightarrow> SlotType \<Rightarrow> TreeState \<Rightarrow> TreeState" where
  "handleItemClick ident ty st =
     (if success_tree st then st
      else if map_option fst (selectedItemId st) = Some ident
      then st\<lparr>selectedItemId := None\<rparr>
      else st\<lparr>selectedItemId := Some (ident, ty)\<rparr>)"

text \<open>
  \<^verbatim>\<open>checkCompletion\<close>: \<^verbatim>\<open>every\<close> slot is filled (\<^verbatim>\<open>!== null\<close>), then \<^verbatim>\<open>every\<close> slot
  holds its expected id (\<^verbatim>\<open>===\<close>). The alert of the wrong case is only a message.
\<close>

definition checkCompletion :: "Slot list \<Rightarrow> TreeState \<Rightarrow> TreeState" where
  "checkCompletion currentSlots st =
     (let allFilled = list_all (\<lambda>s. filledWithId s \<noteq> None) currentSlots
      in if allFilled
         then (let allCorrect = list_all (\<lambda>s. filledWithId s = expectedId s) currentSlots
               in if allCorrect then st\<lparr>success_tree := True\<rparr>
                  else st\<lparr>mistakes := mistakes st + 1\<rparr>)
         else st)"

text \<open>\<^verbatim>\<open>findIndex\<close>: the first index whose element satisfies the test, \<open>None\<close> for \<open>-1\<close>.\<close>

fun findIndex :: "('a \<Rightarrow> bool) \<Rightarrow> 'a list \<Rightarrow> nat option" where
  "findIndex P [] = None"
| "findIndex P (a # as) =
     (if P a then Some 0 else map_option Suc (findIndex P as))"

definition handleSlotClick :: "string \<Rightarrow> TreeState \<Rightarrow> TreeState" where
  "handleSlotClick slotId st =
     (if success_tree st then st
      else
        case findIndex (\<lambda>s. slot_id s = slotId) (slots st) of
          None \<Rightarrow> st
        | Some slotIndex \<Rightarrow>
            let slot = slots st ! slotIndex
            in if truthy (filledWithId slot)
               then st\<lparr>slots := (slots st)[slotIndex := slot\<lparr>filledWithId := None\<rparr>]\<rparr>
               else
                 (case selectedItemId st of
                    None \<Rightarrow> st
                  | Some (ident, ty) \<Rightarrow>
                      if ty = slot_type slot
                      then (let ss = (slots st)[slotIndex := slot\<lparr>filledWithId := Some ident\<rparr>]
                            in checkCompletion ss (st\<lparr>slots := ss, selectedItemId := None\<rparr>))
                      else st))"






section \<open>The teacher zone (components/TeacherZone.tsx)\<close>

record TeacherState =
  isAuthenticated :: bool
  passwordInput :: string
  error_tz :: bool

definition initialTeacherState :: TeacherState where
  "initialTeacherState = \<lparr>isAuthenticated = False, passwordInput = [], error_tz = False\<rparr>"

text \<open>
  \<^verbatim>\<open>toLowerCase\<close> on code units below 256: the capital letters A to Z and the
  accented capitals \<open>0xC0\<close> to \<open>0xDE\<close> (but not the multiplication sign \<open>0xD7\<close>) move up
  by 32, every other unit stays.
\<close>

definition lowerChar :: "char \<Rightarrow> char" where
  "lowerChar c =
     (let n = (of_char c :: nat)
      in if (65 \<le> n \<and> n \<le> 90) \<or> (192 \<le> n \<and> n \<le> 222 \<and> n \<noteq> 215)
         then char_of (n + 32) else c)"

definition toLowerCase :: "string \<Rightarrow> string" where
  "toLowerCase s = map lowerChar s"

text \<open>
  \<^verbatim>\<open>trim\<close> removes white space and line terminators from both ends; below 256 these
  are tab, line feed, vertical tab, form feed, carriage return, space and the
  no-break space \<open>0xA0\<close>.
\<close>

definition isWhiteSpace :: "char \<Rightarrow> bool" where
  "isWhiteSpace c = ((of_char c :: nat) \<in> {9, 10, 11, 12, 13, 32, 160})"

definition trim :: "string \<Rightarrow> string" where
  "trim s = rev (dropWhile isWhiteSpace (rev (dropWhile isWhiteSpace s)))"

definition handleLogin :: "TeacherState \<Rightarrow> TeacherState" where
  "handleLogin st =
     (if trim (toLowerCase (passwordInput st)) = ''darwin''
      then st\<lparr>isAuthenticated := True, error_tz := False\<rparr>
      else st\<lparr>error_tz := True, passwordInput := []\<rparr>)"







section \<open>The application (App.tsx)\<close>

text \<open>
  The state of \<^verbatim>\<open>App\<close> (its \<^verbatim>\<open>useState\<close> cells), the local state of the component
  mounted for the current screen, and two book-keeping fields: the arguments of the
  generation request that is under way and the number of requests issued so far.
  \<^verbatim>\<open>difficulty\<close> and \<^verbatim>\<open>error\<close> carry a suffix.
\<close>

record App =
  state :: AppState
  exerciseData :: "ExerciseData option"
  topic :: string
  difficulty_sel :: Difficulty
  includeFossils :: bool
  loading :: bool
  error_app :: "string option"
  showTeacherZone :: bool
  matrixExercise :: "MatrixState option"
  treeExercise :: "TreeState option"
  teacherZone :: "TeacherState option"
  inFlight :: "(string \<times> Difficulty \<times> bool) option"
  requests :: nat

definition initialApp :: App where
  "initialApp = \<lparr>state = Setup, exerciseData = None, topic = [], difficulty_sel = Facile,
     includeFossils = False, loading = False, error_app = None, showTeacherZone = False,
     matrixExercise = None, treeExercise = None, teacherZone = None,
     inFlight = None, requests = 0\<rparr>"

text \<open>
  \<^verbatim>\<open>setState\<close> of the screen: setting the value it already has changes nothing; a new
  value unmounts the component of the old screen and mounts the one of the new screen
  with its initial state and its first effect run. The tree builder throws in that
  effect when the payload has no evolution step (\<open>treeMountThrows\<close>); the event that
  leads to the tree screen reports this as an error and then no state follows.
\<close>

definition setState :: "AppState \<Rightarrow> App \<Rightarrow> App" where
  "setState s a =
     (if s = state a then a
      else
        let a1 = a\<lparr>state := s, matrixExercise := None, treeExercise := None\<rparr>
        in case exerciseData a of
             None \<Rightarrow> a1
           | Some data \<Rightarrow>
               if s = Matrix
               then a1\<lparr>matrixExercise :=
                         Some (initialMatrixState\<lparr>userMatrix := initMatrix (taxons data) (characters data)\<rparr>)\<rparr>
               else if s = Tree
               then (case initialTreeState data of
                       None \<Rightarrow> a1
                     | Some ts \<Rightarrow> a1\<lparr>treeExercise := Some ts\<rparr>)
               else a1)"

definition treeMountThrows :: "App \<Rightarrow> bool" where
  "treeMountThrows a =
     (case exerciseData a of None \<Rightarrow> False | Some data \<Rightarrow> initialTreeState data = None)"

definition errorMessage :: string where
  "errorMessage = ''Erreur lors de la g'' @ [CHR 0xE9] @ ''n'' @ [CHR 0xE9] @ ''ration. Veuillez v''
     @ [CHR 0xE9] @ ''rifier votre cl'' @ [CHR 0xE9] @ '' API ou r'' @ [CHR 0xE9] @ ''essayer.''"

text \<open>
  \<^verbatim>\<open>startExercise(false)\<close>, and \<^verbatim>\<open>startExercise(true)\<close> in its two halves: up to the
  \<^verbatim>\<open>await\<close>, and from the moment the promise settles (with the outside world \<open>w\<close> that
  answered and the random source of the shuffles).
\<close>

definition startDemo :: "(nat \<Rightarrow> rat) \<Rightarrow> App \<Rightarrow> App" where
  "startDemo rnd a = setState Info (a\<lparr>exerciseData := Some (shuffleData rnd DEFAULT_DATA)\<rparr>)"

definition startGenerate :: "App \<Rightarrow> App" where
  "startGenerate a =
     a\<lparr>loading := True, error_app := None,
       inFlight := Some (topic a, difficulty_sel a, includeFossils a)\<rparr>"

definition settleGenerate :: "World \<Rightarrow> (nat \<Rightarrow> rat) \<Rightarrow> App \<Rightarrow> App" where
  "settleGenerate w rnd a =
     (case inFlight a of
        None \<Rightarrow> a
      | Some (tp, d, f) \<Rightarrow>
          let res = generateExercise w tp d f;
              a1 = a\<lparr>requests := requests a + snd res, inFlight := None\<rparr>
          in case fst res of
               Inr data \<Rightarrow>
                 (setState Info (a1\<lparr>exerciseData := Some (shuffleData rnd data)\<rparr>))\<lparr>loading := False\<rparr>
             | Inl e \<Rightarrow> a1\<lparr>error_app := Some errorMessage, loading := False\<rparr>)"

text \<open>
  What the user (or the settling promise) can do. An event is enabled only where its
  control is rendered and not disabled, \<open>step\<close> is \<open>Inl NotRendered\<close> otherwise; it is
  \<open>Inl RenderError\<close> when the event makes a component throw while rendering, after
  which nothing is on screen. \<open>run\<close> is \<open>None\<close> when some step has no next state.
\<close>

datatype Event =
    ClickHeader
  | SetTopic string
  | SetDifficulty Difficulty
  | ToggleFossils
  | ClickGenerate
  | Settle World "nat \<Rightarrow> rat"
  | ClickDemo "nat \<Rightarrow> rat"
  | ClickContinue
  | ClickCell string string
  | ClickVerifier
  | ClickConstruireArbre
  | ClickItem string SlotType
  | ClickSlot string
  | ClickNouveau
  | ClickEspaceProf
  | TypePassword string
  | SubmitLogin
  | CloseTeacherZone

datatype StepError = NotRendered | RenderError

definition rendered :: "App option \<Rightarrow> StepError + App" where
  "rendered r = (case r of None \<Rightarrow> Inl NotRendered | Some a \<Rightarrow> Inr a)"

definition matrixEvent :: "(ExerciseData \<Rightarrow> MatrixState \<Rightarrow> MatrixState option) \<Rightarrow> App \<Rightarrow> App option" where
  "matrixEvent f a =
     (if state a \<noteq> Matrix then None
      else case (exerciseData a, matrixExercise a) of
             (Some data, Some ms) \<Rightarrow>
               (case f data ms of None \<Rightarrow> None
                | Some ms' \<Rightarrow> Some (a\<lparr>matrixExercise := Some ms'\<rparr>))
           | _ \<Rightarrow> None)"

definition treeEvent :: "(ExerciseData \<Rightarrow> TreeState \<Rightarrow> TreeState option) \<Rightarrow> App \<Rightarrow> App option" where
  "treeEvent f a =
     (if state a \<noteq> Tree then None
      else case (exerciseData a, treeExercise a) of
             (Some data, Some ts) \<Rightarrow>
               (case f data ts of None \<Rightarrow> None
                | Some ts' \<Rightarrow> Some (a\<lparr>treeExercise := Some (fossilEffect data ts')\<rparr>))
           | _ \<Rightarrow> None)"

definition teacherEvent :: "(TeacherState \<Rightarrow> TeacherState option) \<Rightarrow> App \<Rightarrow> App option" where
  "teacherEvent f a =
     (case teacherZone a of
        None \<Rightarrow> None
      | Some tz \<Rightarrow>
          (case f tz of None \<Rightarrow> None
           | Some tz' \<Rightarrow> Some (a\<lparr>teacherZone := Some tz'\<rparr>)))"

definition step :: "Event \<Rightarrow> App \<Rightarrow> StepError + App" where
  "step e a =
     (case e of
        ClickHeader \<Rightarrow> Inr (setState Setup a)
      | SetTopic s \<Rightarrow> rendered (if state a = Setup then Some (a\<lparr>topic := s\<rparr>) else None)
      | SetDifficulty d \<Rightarrow>
          rendered (if state a = Setup then Some (a\<lparr>difficulty_sel := d\<rparr>) else None)
      | ToggleFossils \<Rightarrow>
          rendered (if state a = Setup then Some (a\<lparr>includeFossils := \<not> includeFossils a\<rparr>)
                    else None)
      | ClickGenerate \<Rightarrow>
          rendered (if state a = Setup \<and> \<not> loading a then Some (startGenerate a) else None)
      | Settle w rnd \<Rightarrow>
          rendered (if inFlight a \<noteq> None then Some (settleGenerate w rnd a) else None)
      | ClickDemo rnd \<Rightarrow>
          rendered (if state a = Setup \<and> \<not> loading a then Some (startDemo rnd a) else None)
      | ClickContinue \<Rightarrow>
          rendered (if state a = Info \<and> exerciseData a \<noteq> None
                    then Some (setState Matrix a) else None)
      | ClickCell t c \<Rightarrow>
          rendered (matrixEvent (\<lambda>data ms.
            if t \<in> taxonIds data \<and> c \<in> characterIds data then Some (toggleCell t c ms) else None) a)
      | ClickVerifier \<Rightarrow>
          rendered (matrixEvent (\<lambda>data ms.
            if matrixButton ms = Verifier
            then Some (fst (checkMatrix (taxons data) (characters data) (correctMatrix data) ms))
            else None) a)
      | ClickConstruireArbre \<Rightarrow>
          (case matrixEvent (\<lambda>data ms.
                  if matrixButton ms = ConstruireArbre then Some ms else None) a of
             None \<Rightarrow> Inl NotRendered
           | Some a' \<Rightarrow> if treeMountThrows a' then Inl RenderError else Inr (setState Tree a'))
      | ClickItem ident ty \<Rightarrow>
          rendered (treeEvent (\<lambda>data ts.
            if ident \<in> set (getAvailableItems data ts ty)
            then Some (handleItemClick ident ty ts) else None) a)
      | ClickSlot slotId \<Rightarrow>
          rendered (treeEvent (\<lambda>data ts.
            if slotId \<in> set (map slot_id (slots ts))
            then Some (handleSlotClick slotId ts) else None) a)
      | ClickNouveau \<Rightarrow>
          (case treeEvent (\<lambda>data ts. if success_tree ts then Some ts else None) a of
             None \<Rightarrow> Inl NotRendered
           | Some a' \<Rightarrow> Inr (setState Setup (a'\<lparr>topic := []\<rparr>)))
      | ClickEspaceProf \<Rightarrow>
          rendered (if exerciseData a \<noteq> None \<and> state a \<noteq> Setup
            then Some (a\<lparr>showTeacherZone := True,
                         teacherZone := (case teacherZone a of None \<Rightarrow> Some initialTeacherState
                                         | Some tz \<Rightarrow> Some tz)\<rparr>)
            else None)
      | TypePassword s \<Rightarrow>
          rendered (teacherEvent (\<lambda>tz.
            if \<not> isAuthenticated tz then Some (tz\<lparr>passwordInput := s\<rparr>) else None) a)
      | SubmitLogin \<Rightarrow>
          rendered (teacherEvent (\<lambda>tz.
            if \<not> isAuthenticated tz then Some (handleLogin tz) else None) a)
      | CloseTeacherZone \<Rightarrow>
          rendered (case teacherZone a of None \<Rightarrow> None
                    | Some tz \<Rightarrow> Some (a\<lparr>showTeacherZone := False, teacherZone := None\<rparr>)))"

fun run :: "Event list \<Rightarrow> App \<Rightarrow> App option" where
  "run [] a = Some a"
| "run (e # es) a = (case step e a of Inl err \<Rightarrow> None | Inr a' \<Rightarrow> run es a')"

section \<open>The generation service on a response of any shape\<close>

text \<open>
  \<^verbatim>\<open>JSON.parse(response.text) as RawExerciseResponse\<close> checks nothing: the cast is erased
  when the program is compiled, and the parsed value may be any JSON value. This section
  follows the statements of \<^verbatim>\<open>generateExercise\<close> after the parse on such a value, and
  \<^verbatim>\<open>startExercise\<close> on what it returns; \<open>generateExercise\<close> above is the same function on
  the responses that have the declared shape.

  A JSON value as \<^verbatim>\<open>JSON.parse\<close> builds it. A number is the value of the double, or an
  infinity (from a literal like \<^verbatim>\<open>1e999\<close>); both zeros are \<open>Num 0\<close>. An object is the list
  of its own keys and values, each key once.
\<close>

datatype number = Num rat | PlusInfinity | MinusInfinity

datatype json =
    JNull
  | JBool bool
  | JNum number
  | JStr string
  | JArr "json list"
  | JObj "(string \<times> json) list"

text \<open>
  \<^verbatim>\<open>v.k\<close> for a value \<open>v\<close> other than \<^verbatim>\<open>null\<close> and a name \<open>k\<close> that no built-in prototype
  defines (the program reads \<^verbatim>\<open>matrixList\<close>, \<^verbatim>\<open>title\<close>, \<^verbatim>\<open>taxons\<close>, \<^verbatim>\<open>characters\<close>,
  \<^verbatim>\<open>evolutionOrder\<close>, \<^verbatim>\<open>taxonId\<close>, \<^verbatim>\<open>presentCharacterIds\<close>, \<^verbatim>\<open>id\<close>, \<^verbatim>\<open>name\<close>, \<^verbatim>\<open>isFossil\<close>,
  \<^verbatim>\<open>characterId\<close>, \<^verbatim>\<open>branchingTaxonId\<close>): the own property of an object, \<^verbatim>\<open>undefined\<close>
  (\<open>None\<close>) on an object without it and on every array, string, number and boolean. On
  \<^verbatim>\<open>null\<close> the read throws; the callers test for it first.
\<close>

definition property :: "string \<Rightarrow> json \<Rightarrow> json option" where
  "property k v = (case v of JObj kvs \<Rightarrow> map_of kvs k | _ \<Rightarrow> None)"

text \<open>Truthiness: \<^verbatim>\<open>undefined\<close>, \<^verbatim>\<open>null\<close>, \<^verbatim>\<open>false\<close>, zero and the empty string are falsy.\<close>

definition truthy_json :: "json option \<Rightarrow> bool" where
  "truthy_json v =
     (case v of
        None \<Rightarrow> False
      | Some JNull \<Rightarrow> False
      | Some (JBool b) \<Rightarrow> b
      | Some (JNum x) \<Rightarrow> x \<noteq> Num 0
      | Some (JStr s) \<Rightarrow> s \<noteq> []
      | Some (JArr xs) \<Rightarrow> True
      | Some (JObj kvs) \<Rightarrow> True)"

text \<open>
  The key of \<^verbatim>\<open>correctMatrix[item.taxonId] = ...\<close> is the text of the value
  (\<^verbatim>\<open>ToPropertyKey\<close>); \<open>None\<close> is the \<^verbatim>\<open>TypeError\<close> of a value that has none. An array is
  the texts of its elements joined with commas, \<^verbatim>\<open>null\<close> giving the empty text there. An
  object is \<^verbatim>\<open>[object Object]\<close>, through \<^verbatim>\<open>Object.prototype.toString\<close>, unless it has an
  own key \<^verbatim>\<open>toString\<close>: its value is not a function, \<^verbatim>\<open>valueOf\<close> (own and no function, or
  inherited and returning the object) gives no primitive either, and the conversion
  throws. The text of a number (\<^verbatim>\<open>Number.prototype.toString\<close>) is the parameter \<open>ns\<close>.
\<close>

fun joinTexts :: "string option list \<Rightarrow> string option" where
  "joinTexts [] = Some []"
| "joinTexts [t] = t"
| "joinTexts (t # u # us) =
     (case t of
        None \<Rightarrow> None
      | Some s \<Rightarrow> (case joinTexts (u # us) of None \<Rightarrow> None | Some r \<Rightarrow> Some (s @ '','' @ r)))"

fun toText :: "(number \<Rightarrow> string) \<Rightarrow> json \<Rightarrow> string option" where
  "toText ns JNull = Some ''null''"
| "toText ns (JBool b) = Some (if b then ''true'' else ''false'')"
| "toText ns (JNum x) = Some (ns x)"
| "toText ns (JStr s) = Some s"
| "toText ns (JArr xs) = joinTexts (map (\<lambda>x. if x = JNull then Some [] else toText ns x) xs)"
| "toText ns (JObj kvs) =
     (if ''toString'' \<in> set (map fst kvs) then None else Some ''[object Object]'')"

definition toPropertyKey :: "(number \<Rightarrow> string) \<Rightarrow> json option \<Rightarrow> string option" where
  "toPropertyKey ns v = (case v of None \<Rightarrow> Some ''undefined'' | Some j \<Rightarrow> toText ns j)"

text \<open>
  The world of the service, with \<^verbatim>\<open>JSON.parse\<close> returning any value. The constructor of
  the client and the call \<^verbatim>\<open>ai.models.generateContent\<close> are one operation, which rejects
  or gives the text of the response; every use of it counts as a request.
\<close>

record JsWorld =
  env_API_KEY :: "string option"
  ai_generateContent :: "GenerateRequest \<Rightarrow> string + string option"
  JSON_parse_any :: "string \<Rightarrow> string + json"
  Number_toString :: "number \<Rightarrow> string"

text \<open>
  The object that \<^verbatim>\<open>generateExercise\<close> returns: four fields copied from the parsed value
  as they are (\<open>None\<close> is \<^verbatim>\<open>undefined\<close>), the difficulty of the call, and \<^verbatim>\<open>correctMatrix\<close>
  as the list of the assignments made to it, in the order they were made. (An assignment
  to the key \<^verbatim>\<open>__proto__\<close> sets the prototype of the object or does nothing; no
  assignment to the fresh object throws.)
\<close>

record JsPayload =
  j_title :: "json option"
  j_difficulty :: Difficulty
  j_taxons :: "json option"
  j_characters :: "json option"
  j_assignments :: "(string \<times> json) list"
  j_evolutionOrder :: "json option"

text \<open>\<^verbatim>\<open>item.presentCharacterIds || []\<close>.\<close>

definition orEmptyArray :: "json option \<Rightarrow> json" where
  "orEmptyArray v = (case v of None \<Rightarrow> JArr [] | Some j \<Rightarrow> if truthy_json v then j else JArr [])"

text \<open>
  The body of \<^verbatim>\<open>rawData.matrixList.forEach\<close>, item by item: \<^verbatim>\<open>item.taxonId\<close> throws on a
  \<^verbatim>\<open>null\<close> item, the conversion of the key may throw, and an exception ends the loop.
\<close>

fun forEachItem ::
  "(number \<Rightarrow> string) \<Rightarrow> json list \<Rightarrow> (string \<times> json) list \<Rightarrow> (string \<times> json) list option" where
  "forEachItem ns [] assigned = Some assigned"
| "forEachItem ns (item # items) assigned =
     (if item = JNull then None
      else case toPropertyKey ns (property ''taxonId'' item) of
             None \<Rightarrow> None
           | Some key \<Rightarrow>
               forEachItem ns items
                 (assigned @ [(key, orEmptyArray (property ''presentCharacterIds'' item))]))"

text \<open>
  The statements after \<^verbatim>\<open>JSON.parse\<close>; \<open>None\<close> is a \<^verbatim>\<open>TypeError\<close>. \<^verbatim>\<open>rawData.matrixList\<close>
  throws when \<^verbatim>\<open>rawData\<close> is \<^verbatim>\<open>null\<close>. A truthy \<^verbatim>\<open>matrixList\<close> that is not an array has no
  function \<^verbatim>\<open>forEach\<close> (on a string, a number and \<^verbatim>\<open>true\<close> the name is undefined; an own
  key \<^verbatim>\<open>forEach\<close> of an object holds a JSON value), so the call throws.
\<close>

definition readParsed :: "(number \<Rightarrow> string) \<Rightarrow> Difficulty \<Rightarrow> json \<Rightarrow> JsPayload option" where
  "readParsed ns diff rawData =
     (if rawData = JNull then None
      else
        case (if truthy_json (property ''matrixList'' rawData)
              then (case property ''matrixList'' rawData of
                      Some (JArr items) \<Rightarrow> forEachItem ns items []
                    | _ \<Rightarrow> None)
              else Some []) of
          None \<Rightarrow> None
        | Some assigned \<Rightarrow>
            Some \<lparr>j_title = property ''title'' rawData,
                  j_difficulty = diff,
                  j_taxons = property ''taxons'' rawData,
                  j_characters = property ''characters'' rawData,
                  j_assignments = assigned,
                  j_evolutionOrder = property ''evolutionOrder'' rawData\<rparr>)"

text \<open>
  What \<^verbatim>\<open>generateExercise\<close> throws: its own two errors, the rejection of the request,
  the \<^verbatim>\<open>SyntaxError\<close> of \<^verbatim>\<open>JSON.parse\<close>, and a \<^verbatim>\<open>TypeError\<close> while it reads the parsed
  value. (Running out of memory or of stack is left out.)
\<close>

datatype thrown =
    ApiKeyIsMissing
  | Rejection string
  | JsonSyntaxError string
  | TypeError
  | ImpossibleDeGenererLExercice

definition generateExercise_json ::
  "JsWorld \<Rightarrow> string \<Rightarrow> Difficulty \<Rightarrow> bool \<Rightarrow> (thrown + JsPayload) \<times> nat" where
  "generateExercise_json w tp diff fossils =
     (if \<not> truthy (env_API_KEY w) then (Inl ApiKeyIsMissing, 0)
      else
        case ai_generateContent w
               \<lparr>req_topic = tp, req_difficulty = diff, req_includeFossils = fossils\<rparr> of
          Inl e \<Rightarrow> (Inl (Rejection e), 1)
        | Inr response_text \<Rightarrow>
            (case response_text of
               None \<Rightarrow> (Inl ImpossibleDeGenererLExercice, 1)
             | Some body \<Rightarrow>
                 if body \<noteq> [] then
                   (case JSON_parse_any w body of
                      Inl e \<Rightarrow> (Inl (JsonSyntaxError e), 1)
                    | Inr rawData \<Rightarrow>
                        (case readParsed (Number_toString w) diff rawData of
                           None \<Rightarrow> (Inl TypeError, 1)
                         | Some payload \<Rightarrow> (Inr payload, 1)))
                 else (Inl ImpossibleDeGenererLExercice, 1)))"

text \<open>
  The parsed values on which the reading throws, said without the loop: \<^verbatim>\<open>null\<close>; a value
  whose \<^verbatim>\<open>matrixList\<close> is truthy and not an array; a value whose \<^verbatim>\<open>matrixList\<close> is an array
  with an item that is \<^verbatim>\<open>null\<close> or whose \<^verbatim>\<open>taxonId\<close> has no text.
\<close>

definition readThrows :: "(number \<Rightarrow> string) \<Rightarrow> json \<Rightarrow> bool" where
  "readThrows ns rawData \<longleftrightarrow>
     rawData = JNull
     \<or> (truthy_json (property ''matrixList'' rawData)
        \<and> (case property ''matrixList'' rawData of
             Some (JArr items) \<Rightarrow>
               (\<exists>item \<in> set items.
                  item = JNull \<or> toPropertyKey ns (property ''taxonId'' item) = None)
           | _ \<Rightarrow> True))"

text \<open>
  The payloads of the declared shape, as values of \<open>ExerciseData\<close>: the title a string;
  the taxa and characters arrays of objects with strings \<^verbatim>\<open>id\<close> and \<^verbatim>\<open>name\<close> (and
  \<^verbatim>\<open>isFossil\<close> missing or a boolean); the evolution order an array of objects whose two
  ids are a string or \<^verbatim>\<open>null\<close>; every assignment an array of strings under a key other
  than \<^verbatim>\<open>__proto__\<close>. \<open>None\<close> is a payload of another shape, which is not a value of
  \<open>ExerciseData\<close>.
\<close>

definition decodeString :: "json option \<Rightarrow> string option" where
  "decodeString v = (case v of Some (JStr s) \<Rightarrow> Some s | _ \<Rightarrow> None)"

definition decodeNullable :: "json option \<Rightarrow> string option option" where
  "decodeNullable v =
     (case v of Some (JStr s) \<Rightarrow> Some (Some s) | Some JNull \<Rightarrow> Some None | _ \<Rightarrow> None)"

definition decodeOptionalBool :: "json option \<Rightarrow> bool option option" where
  "decodeOptionalBool v =
     (case v of None \<Rightarrow> Some None | Some (JBool b) \<Rightarrow> Some (Some b) | _ \<Rightarrow> None)"

fun decodeAll :: "('a \<Rightarrow> 'b option) \<Rightarrow> 'a list \<Rightarrow> 'b list option" where
  "decodeAll dec [] = Some []"
| "decodeAll dec (x # xs) =
     (case dec x of
        None \<Rightarrow> None
      | Some y \<Rightarrow> (case decodeAll dec xs of None \<Rightarrow> None | Some ys \<Rightarrow> Some (y # ys)))"

definition decodeArray :: "(json \<Rightarrow> 'b option) \<Rightarrow> json option \<Rightarrow> 'b list option" where
  "decodeArray dec v = (case v of Some (JArr xs) \<Rightarrow> decodeAll dec xs | _ \<Rightarrow> None)"

definition decodeTaxon :: "json \<Rightarrow> Taxon option" where
  "decodeTaxon v =
     (case (decodeString (property ''id'' v), decodeString (property ''name'' v),
            decodeOptionalBool (property ''isFossil'' v)) of
        (Some i, Some n, Some fo) \<Rightarrow> Some \<lparr>t_id = i, t_name = n, isFossil = fo\<rparr>
      | _ \<Rightarrow> None)"

definition decodeCharacter :: "json \<Rightarrow> Character option" where
  "decodeCharacter v =
     (case (decodeString (property ''id'' v), decodeString (property ''name'' v)) of
        (Some i, Some n) \<Rightarrow> Some \<lparr>c_id = i, c_name = n\<rparr>
      | _ \<Rightarrow> None)"

definition decodeStep :: "json \<Rightarrow> EvolutionStep option" where
  "decodeStep v =
     (case (decodeNullable (property ''characterId'' v),
            decodeNullable (property ''branchingTaxonId'' v)) of
        (Some c, Some t) \<Rightarrow> Some \<lparr>characterId = c, branchingTaxonId = t\<rparr>
      | _ \<Rightarrow> None)"

definition decodeAssignment :: "string \<times> json \<Rightarrow> RawMatrixItem option" where
  "decodeAssignment kv =
     (if fst kv = ''__proto__'' then None
      else case decodeArray (\<lambda>c. decodeString (Some c)) (Some (snd kv)) of
             None \<Rightarrow> None
           | Some cs \<Rightarrow> Some \<lparr>taxonId = fst kv, presentCharacterIds = Some cs\<rparr>)"

definition decodePayload :: "JsPayload \<Rightarrow> ExerciseData option" where
  "decodePayload p =
     (case (decodeString (j_title p), decodeArray decodeTaxon (j_taxons p),
            decodeArray decodeCharacter (j_characters p),
            decodeAll decodeAssignment (j_assignments p),
            decodeArray decodeStep (j_evolutionOrder p)) of
        (Some t, Some ts, Some cs, Some items, Some steps) \<Rightarrow>
          Some \<lparr>title = t, difficulty = j_difficulty p, taxons = ts, characters = cs,
                correctMatrix = buildCorrectMatrix (Some items), evolutionOrder = steps\<rparr>
      | _ \<Rightarrow> None)"

text \<open>
  \<^verbatim>\<open>startExercise(true)\<close> from the moment the promise settles. An exception of
  \<^verbatim>\<open>generateExercise\<close> goes to the \<^verbatim>\<open>catch\<close>. So does the one of \<^verbatim>\<open>shuffleArray\<close>, whose
  \<^verbatim>\<open>[...array]\<close> throws unless the value is iterable: of the JSON values only an array and
  a string are. Otherwise the payload is stored and the information screen comes up;
  the screens are described for the payloads of the declared shape, and the result is
  \<open>None\<close> for another one.
\<close>

definition iterable :: "json option \<Rightarrow> bool" where
  "iterable v = (case v of Some (JArr xs) \<Rightarrow> True | Some (JStr s) \<Rightarrow> True | _ \<Rightarrow> False)"

definition settleGenerate_json :: "JsWorld \<Rightarrow> (nat \<Rightarrow> rat) \<Rightarrow> App \<Rightarrow> App option" where
  "settleGenerate_json w rnd a =
     (case inFlight a of
        None \<Rightarrow> Some a
      | Some (tp, d, f) \<Rightarrow>
          let res = generateExercise_json w tp d f;
              a1 = a\<lparr>requests := requests a + snd res, inFlight := None\<rparr>
          in case fst res of
               Inl e \<Rightarrow> Some (a1\<lparr>error_app := Some errorMessage, loading := False\<rparr>)
             | Inr payload \<Rightarrow>
                 if iterable (j_taxons payload) \<and> iterable (j_characters payload)
                 then (case decodePayload payload of
                         None \<Rightarrow> None
                       | Some data \<Rightarrow>
                           Some ((setState Info (a1\<lparr>exerciseData := Some (shuffleData rnd data)\<rparr>))
                                   \<lparr>loading := False\<rparr>))
                 else Some (a1\<lparr>error_app := Some errorMessage, loading := False\<rparr>))"

text \<open>
  A world of the first kind that has no credential (\<open>n = 0\<close>), rejects the request, or
  answers with a given response of the declared shape.
\<close>

definition typedWorld :: "nat \<Rightarrow> RawExerciseResponse option \<Rightarrow> World" where
  "typedWorld n raw =
     \<lparr>API_KEY = (if n = 0 then None else Some ''key''),
      generateContent = (\<lambda>req. case raw of None \<Rightarrow> Inl [] | Some r \<Rightarrow> Inr (Some ''text'')),
      JSON_parse = (\<lambda>body. case raw of None \<Rightarrow> Inl [] | Some r \<Rightarrow> Inr r)\<rparr>"

section \<open>Concrete inputs of the examples\<close>

text \<open>
  A payload whose answer key has no row for the first taxon (the response listed only
  the taxon that has a derived character), and the grid a student fills in for it:
  absent for the first taxon (two clicks), present for the second (one click).
\<close>

definition omittedRowTaxons :: "Taxon list" where
  "omittedRowTaxons =
     [\<lparr>t_id = ''t1'', t_name = ''Lamproie'', isFossil = None\<rparr>,
      \<lparr>t_id = ''t2'', t_name = ''Sardine'', isFossil = None\<rparr>]"

definition omittedRowCharacters :: "Character list" where
  "omittedRowCharacters = [\<lparr>c_id = ''c1'', c_name = ''Machoires''\<rparr>]"

definition omittedRowList :: "RawMatrixItem list" where
  "omittedRowList = [\<lparr>taxonId = ''t2'', presentCharacterIds = Some [''c1'']\<rparr>]"

definition omittedRowGrid :: MatrixState where
  "omittedRowGrid =
     toggleCell ''t2'' ''c1'' (toggleCell ''t1'' ''c1'' (toggleCell ''t1'' ''c1'' initialMatrixState))"

text \<open>A random source that always returns one half.\<close>

definition halfSource :: "nat \<Rightarrow> rat" where
  "halfSource k = 1 / 2"

text \<open>
  The invariant "referenced ids exist" read on a parsed response, before
  \<^verbatim>\<open>generateExercise\<close> turns its matrix list into the answer key.
\<close>

definition rawReferencedIdsExist :: "RawExerciseResponse \<Rightarrow> bool" where
  "rawReferencedIdsExist raw \<longleftrightarrow>
     (\<forall>item \<in> set (case matrixList raw of None \<Rightarrow> [] | Some items \<Rightarrow> items).
        taxonId item \<in> set (map t_id (raw_taxons raw)) \<and>
        (\<forall>c \<in> set (case presentCharacterIds item of None \<Rightarrow> [] | Some cs \<Rightarrow> cs).
           c \<in> set (map c_id (raw_characters raw)))) \<and>
     (\<forall>stp \<in> set (raw_evolutionOrder raw).
        (case branchingTaxonId stp of None \<Rightarrow> True
         | Some t \<Rightarrow> t \<in> set (map t_id (raw_taxons raw))) \<and>
        (case characterId stp of None \<Rightarrow> True
         | Some c \<Rightarrow> c \<in> set (map c_id (raw_characters raw))))"

text \<open>
  A world whose model answers with the default exercise, and one whose answer names a
  taxon \<open>t9\<close> in the matrix list that is not among its taxa. The response text stands
  for the JSON text of the value that \<^verbatim>\<open>JSON.parse\<close> returns for it.
\<close>

definition soundRaw :: RawExerciseResponse where
  "soundRaw = \<lparr>raw_title = title DEFAULT_DATA,
     raw_taxons = taxons DEFAULT_DATA,
     raw_characters = characters DEFAULT_DATA,
     matrixList = Some [
       \<lparr>taxonId = ''t1'', presentCharacterIds = Some [''c1'']\<rparr>,
       \<lparr>taxonId = ''t2'', presentCharacterIds = Some [''c1'', ''c2'']\<rparr>,
       \<lparr>taxonId = ''t3'', presentCharacterIds = Some [''c1'', ''c2'', ''c3'']\<rparr>,
       \<lparr>taxonId = ''t4'', presentCharacterIds = Some [''c1'', ''c2'', ''c4'']\<rparr>],
     raw_evolutionOrder = evolutionOrder DEFAULT_DATA\<rparr>"

definition soundWorld :: World where
  "soundWorld = \<lparr>API_KEY = Some ''key'',
     generateContent = (\<lambda>req. Inr (Some ''{default exercise}'')),
     JSON_parse = (\<lambda>txt. if txt = ''{default exercise}'' then Inr soundRaw
                          else Inl ''Unexpected token'')\<rparr>"

definition danglingRaw :: RawExerciseResponse where
  "danglingRaw = \<lparr>raw_title = ''Test'',
     raw_taxons = [\<lparr>t_id = ''t1'', t_name = ''Sardine'', isFossil = None\<rparr>],
     raw_characters = [\<lparr>c_id = ''c1'', c_name = ''Vertebres''\<rparr>],
     matrixList = Some [\<lparr>taxonId = ''t9'', presentCharacterIds = Some [''c1'']\<rparr>],
     raw_evolutionOrder = [\<lparr>characterId = Some ''c1'', branchingTaxonId = Some ''t1''\<rparr>]\<rparr>"

definition danglingWorld :: World where
  "danglingWorld = \<lparr>API_KEY = Some ''key'',
     generateContent = (\<lambda>req. Inr (Some ''{exercise naming t9}'')),
     JSON_parse = (\<lambda>txt. if txt = ''{exercise naming t9}'' then Inr danglingRaw
                          else Inl ''Unexpected token'')\<rparr>"

definition danglingPayload :: ExerciseData where
  "danglingPayload = \<lparr>title = ''Test'', difficulty = Facile,
     taxons = [\<lparr>t_id = ''t1'', t_name = ''Sardine'', isFossil = None\<rparr>],
     characters = [\<lparr>c_id = ''c1'', c_name = ''Vertebres''\<rparr>],
     correctMatrix = [(''t9'', [''c1''])],
     evolutionOrder = [\<lparr>characterId = Some ''c1'', branchingTaxonId = Some ''t1''\<rparr>]\<rparr>"

text \<open>
  Worlds in which the service fails: without a credential; with a rejected request; with
  a response that has no text; with a text that is not JSON, so that \<^verbatim>\<open>JSON.parse\<close>
  throws; with the text \<^verbatim>\<open>null\<close>, which \<^verbatim>\<open>JSON.parse\<close> accepts; and with an object whose
  matrix list holds \<^verbatim>\<open>null\<close> (the response text stands for its JSON text).
\<close>

definition keylessWorld :: JsWorld where
  "keylessWorld = \<lparr>env_API_KEY = None,
     ai_generateContent = (\<lambda>req. Inr (Some ''null'')),
     JSON_parse_any = (\<lambda>body. if body = ''null'' then Inr JNull else Inl ''Unexpected token''),
     Number_toString = (\<lambda>x. ''0'')\<rparr>"

definition offlineWorld :: JsWorld where
  "offlineWorld = keylessWorld\<lparr>env_API_KEY := Some ''key'',
     ai_generateContent := (\<lambda>req. Inl ''fetch failed'')\<rparr>"

definition silentWorld :: JsWorld where
  "silentWorld = offlineWorld\<lparr>ai_generateContent := (\<lambda>req. Inr None)\<rparr>"

definition malformedWorld :: JsWorld where
  "malformedWorld = offlineWorld\<lparr>
     ai_generateContent := (\<lambda>req. Inr (Some ''Sorry, I cannot help with that.'')),
     JSON_parse_any := (\<lambda>body. Inl ''Unexpected token S in JSON at position 0'')\<rparr>"

definition nullWorld :: JsWorld where
  "nullWorld = offlineWorld\<lparr>ai_generateContent := (\<lambda>req. Inr (Some ''null''))\<rparr>"

definition nullItemWorld :: JsWorld where
  "nullItemWorld = offlineWorld\<lparr>
     ai_generateContent := (\<lambda>req. Inr (Some ''{matrixList: [null]}'')),
     JSON_parse_any := (\<lambda>body. if body = ''{matrixList: [null]}''
                                then Inr (JObj [(''matrixList'', JArr [JNull])])
                                else Inl ''Unexpected token'')\<rparr>"

text \<open>
  A world whose model answers with an exercise of one taxon, one character and one
  evolution step, and the clicks that take the application through it up to the tree
  builder.
\<close>

definition tinyRaw :: RawExerciseResponse where
  "tinyRaw = \<lparr>raw_title = ''Tiny'',
     raw_taxons = [\<lparr>t_id = ''t1'', t_name = ''Sardine'', isFossil = None\<rparr>],
     raw_characters = [\<lparr>c_id = ''c1'', c_name = ''Vertebres''\<rparr>],
     matrixList = Some [\<lparr>taxonId = ''t1'', presentCharacterIds = Some [''c1'']\<rparr>],
     raw_evolutionOrder = [\<lparr>characterId = Some ''c1'', branchingTaxonId = Some ''t1''\<rparr>]\<rparr>"

definition tinyWorld :: World where
  "tinyWorld = \<lparr>API_KEY = Some ''key'',
     generateContent = (\<lambda>req. Inr (Some ''{tiny exercise}'')),
     JSON_parse = (\<lambda>txt. if txt = ''{tiny exercise}'' then Inr tinyRaw
                          else Inl ''Unexpected token'')\<rparr>"

definition tinyMatrixRun :: "Event list" where
  "tinyMatrixRun = [ClickGenerate, Settle tinyWorld halfSource, ClickContinue,
                    ClickCell ''t1'' ''c1'', ClickVerifier]"

definition tinyRun :: "Event list" where
  "tinyRun = tinyMatrixRun @ [ClickConstruireArbre]"

text \<open>
  A world whose model gives one taxon the empty string as its id (the taxon without any
  derived character, which branches nowhere on the trunk), and the clicks of a student
  who fills in the matrix correctly and then places that taxon in both taxon slots.
\<close>

definition emptyIdRaw :: RawExerciseResponse where
  "emptyIdRaw = \<lparr>raw_title = ''Vertebres'',
     raw_taxons = [\<lparr>t_id = [], t_name = ''Lamproie'', isFossil = None\<rparr>,
                   \<lparr>t_id = ''t2'', t_name = ''Sardine'', isFossil = None\<rparr>,
                   \<lparr>t_id = ''t3'', t_name = ''Grenouille'', isFossil = None\<rparr>],
     raw_characters = [\<lparr>c_id = ''c1'', c_name = ''Machoires''\<rparr>,
                       \<lparr>c_id = ''c2'', c_name = ''4 membres''\<rparr>],
     matrixList = Some [\<lparr>taxonId = [], presentCharacterIds = Some []\<rparr>,
                        \<lparr>taxonId = ''t2'', presentCharacterIds = Some [''c1'']\<rparr>,
                        \<lparr>taxonId = ''t3'', presentCharacterIds = Some [''c1'', ''c2'']\<rparr>],
     raw_evolutionOrder = [\<lparr>characterId = Some ''c1'', branchingTaxonId = Some ''t2''\<rparr>,
                           \<lparr>characterId = Some ''c2'', branchingTaxonId = Some ''t3''\<rparr>]\<rparr>"

definition emptyIdWorld :: World where
  "emptyIdWorld = \<lparr>API_KEY = Some ''key'',
     generateContent = (\<lambda>req. Inr (Some ''{exercise with an empty id}'')),
     JSON_parse = (\<lambda>txt. if txt = ''{exercise with an empty id}'' then Inr emptyIdRaw
                          else Inl ''Unexpected token'')\<rparr>"

definition emptyIdTreeRun :: "Event list" where
  "emptyIdTreeRun =
     [ClickGenerate, Settle emptyIdWorld halfSource, ClickContinue,
      ClickCell [] ''c1'', ClickCell [] ''c1'', ClickCell [] ''c2'', ClickCell [] ''c2'',
      ClickCell ''t2'' ''c1'', ClickCell ''t2'' ''c2'', ClickCell ''t2'' ''c2'',
      ClickCell ''t3'' ''c1'', ClickCell ''t3'' ''c2'',
      ClickVerifier, ClickConstruireArbre]"

definition emptyIdRun :: "Event list" where
  "emptyIdRun = emptyIdTreeRun @
     [ClickItem [] taxon, ClickSlot ''taxon-0'', ClickItem [] taxon, ClickSlot ''taxon-1'']"

text \<open>What the slots of the mounted tree builder hold, slot by slot.\<close>

definition filledIds :: "App \<Rightarrow> string option list" where
  "filledIds a = (case treeExercise a of None \<Rightarrow> [] | Some ts \<Rightarrow> map filledWithId (slots ts))"

text \<open>The ids the inventory of the mounted tree builder offers for a slot type.\<close>

definition inventoryIds :: "SlotType \<Rightarrow> App \<Rightarrow> string list" where
  "inventoryIds ty a =
     (case (exerciseData a, treeExercise a) of
        (Some data, Some ts) \<Rightarrow> getAvailableItems data ts ty
      | _ \<Rightarrow> [])"

section \<open>Invariants used in the proofs\<close>

text \<open>
  The tree builder: the ids that count as placed are pairwise different, and the
  selected item is not among them.
\<close>

definition treeInv :: "TreeState \<Rightarrow> bool" where
  "treeInv ts \<longleftrightarrow>
     distinct (placedIds (slots ts))
     \<and> (case selectedItemId ts of None \<Rightarrow> True
        | Some (ident, ty) \<Rightarrow> ident \<notin> set (placedIds (slots ts)))"

text \<open>
  The application: a generation request is under way only on the setup screen, with the
  loading flag set; a mounted tree builder satisfies its invariant.
\<close>

definition appInv :: "App \<Rightarrow> bool" where
  "appInv a \<longleftrightarrow>
     (inFlight a \<noteq> None \<longrightarrow> state a = Setup \<and> loading a)
     \<and> (\<forall>ts. treeExercise a = Some ts \<longrightarrow> treeInv ts)"

text \<open>The transitions of the screen that the state machine allows.\<close>

definition edge :: "App \<Rightarrow> App \<Rightarrow> bool" where
  "edge a a' \<longleftrightarrow>
     state a' = state a \<or> state a' = Setup
     \<or> (state a = Setup \<and> state a' = Info \<and> exerciseData a' \<noteq> None)
     \<or> (state a = Info \<and> state a' = Matrix)
     \<or> (state a = Matrix \<and> state a' = Tree \<and> (\<exists>ms. matrixExercise a = Some ms \<and> success ms))"

section \<open>Properties of the matrix exercise\<close>

lemma checkCell_fold_chars:
  "fold (checkCell um cm t) cs (h, a) =
     (h \<or> (\<exists>c \<in> set cs. cellOf um (t_id t) (c_id c) \<noteq> None
             \<and> cellOf um (t_id t) (c_id c) \<noteq> shouldBePresent cm (t_id t) (c_id c)),
      a \<and> (\<forall>c \<in> set cs. cellOf um (t_id t) (c_id c) \<noteq> None))"
  by (induction cs arbitrary: h a) (auto simp: checkCell_def Let_def)

lemma checkLoops_fold_taxons:
  "fold (\<lambda>t flags. fold (checkCell um cm t) cs flags) ts (h, a) =
     (h \<or> (\<exists>t \<in> set ts. \<exists>c \<in> set cs. cellOf um (t_id t) (c_id c) \<noteq> None
             \<and> cellOf um (t_id t) (c_id c) \<noteq> shouldBePresent cm (t_id t) (c_id c)),
      a \<and> (\<forall>t \<in> set ts. \<forall>c \<in> set cs. cellOf um (t_id t) (c_id c) \<noteq> None))"
proof (induction ts arbitrary: h a)
  case Nil
  show ?case by simp
next
  case (Cons t ts)
  show ?case
    by (simp only: fold_simps checkCell_fold_chars Cons.IH) auto
qed

lemma checkLoops_hasErrors:
  "fst (checkLoops um cm ts cs) \<longleftrightarrow>
     (\<exists>t \<in> set ts. \<exists>c \<in> set cs. cellOf um (t_id t) (c_id c) \<noteq> None
        \<and> cellOf um (t_id t) (c_id c) \<noteq> shouldBePresent cm (t_id t) (c_id c))"
  by (simp add: checkLoops_def checkLoops_fold_taxons)

lemma checkLoops_allFilled:
  "snd (checkLoops um cm ts cs) \<longleftrightarrow>
     (\<forall>t \<in> set ts. \<forall>c \<in> set cs. cellOf um (t_id t) (c_id c) \<noteq> None)"
  by (simp add: checkLoops_def checkLoops_fold_taxons)

lemma checkMatrix_unfilled:
  assumes "\<not> snd (checkLoops (userMatrix st) cm ts cs)"
  shows "checkMatrix ts cs cm st = (st, True)"
  using assms by (simp add: checkMatrix_def Let_def)

lemma checkMatrix_filled:
  assumes "snd (checkLoops (userMatrix st) cm ts cs)"
  shows "checkMatrix ts cs cm st =
           (if fst (checkLoops (userMatrix st) cm ts cs)
            then (st\<lparr>showErrors := True\<rparr>, False) else (st\<lparr>success := True\<rparr>, False))"
  using assms by (simp add: checkMatrix_def Let_def)

lemma cellOf_toggleCell:
  "\<not> success st \<Longrightarrow>
     cellOf (userMatrix (toggleCell t c st)) t' c' =
       (if t' = t \<and> c' = c then nextVal (cellOf (userMatrix st) t c)
        else cellOf (userMatrix st) t' c')"
  by (auto simp: toggleCell_def cellOf_def Let_def split: option.splits)

lemma nextVal_cycle: "nextVal (nextVal (nextVal v)) = v"
  by (cases v) (auto simp: nextVal_def)

lemma toggleCell_flags:
  "\<not> success st \<Longrightarrow> \<not> showErrors (toggleCell t c st) \<and> \<not> success (toggleCell t c st)"
  by (simp add: toggleCell_def Let_def)

text \<open>
  Claim C3. While success has not been declared, one click on the cell \<open>(t, c)\<close> moves it
  one step along unset, present, absent, unset, so three clicks bring it back; every
  other cell keeps its value; the error display is switched off. Once success has been
  declared a click changes nothing at all.
\<close>

theorem toggleCell_cycle:
  "(\<not> success st \<longrightarrow>
      cellOf (userMatrix (toggleCell t c st)) t c = nextVal (cellOf (userMatrix st) t c)
      \<and> nextVal None = Some True \<and> nextVal (Some True) = Some False \<and> nextVal (Some False) = None
      \<and> cellOf (userMatrix (toggleCell t c (toggleCell t c (toggleCell t c st)))) t c
          = cellOf (userMatrix st) t c
      \<and> (\<forall>t' c'. (t', c') \<noteq> (t, c) \<longrightarrow>
            cellOf (userMatrix (toggleCell t c st)) t' c' = cellOf (userMatrix st) t' c')
      \<and> \<not> showErrors (toggleCell t c st)
      \<and> \<not> success (toggleCell t c st))
   \<and> (success st \<longrightarrow> toggleCell t c st = st)"
proof (intro conjI impI allI)
  assume ns: "\<not> success st"
  show "cellOf (userMatrix (toggleCell t c st)) t c = nextVal (cellOf (userMatrix st) t c)"
    using ns by (simp add: cellOf_toggleCell)
  show "cellOf (userMatrix (toggleCell t c (toggleCell t c (toggleCell t c st)))) t c
          = cellOf (userMatrix st) t c"
    using ns by (simp add: cellOf_toggleCell toggleCell_flags nextVal_cycle)
  show "\<not> showErrors (toggleCell t c st)" "\<not> success (toggleCell t c st)"
    using ns by (simp_all add: toggleCell_flags)
  fix t' c' assume "(t', c') \<noteq> (t, c)"
  then show "cellOf (userMatrix (toggleCell t c st)) t' c' = cellOf (userMatrix st) t' c'"
    using ns by (auto simp: cellOf_toggleCell)
next
  show "nextVal None = Some True" "nextVal (Some True) = Some False" "nextVal (Some False) = None"
    by (simp_all add: nextVal_def)
next
  assume "success st" then show "toggleCell t c st = st" by (simp add: toggleCell_def)
qed

theorem toggleCell_cycle_witness:
  "\<not> success initialMatrixState
   \<and> cellOf (userMatrix (toggleCell ''t1'' ''c1'' initialMatrixState)) ''t1'' ''c1'' = Some True
   \<and> cellOf (userMatrix (toggleCell ''t1'' ''c1'' initialMatrixState)) ''t2'' ''c1'' = None
   \<and> success (initialMatrixState\<lparr>success := True\<rparr>)
   \<and> toggleCell ''t1'' ''c1'' (initialMatrixState\<lparr>success := True\<rparr>)
       = initialMatrixState\<lparr>success := True\<rparr>"
proof -
  have ns: "\<not> success initialMatrixState" by (simp add: initialMatrixState_def)
  have c0: "cellOf (userMatrix initialMatrixState) ''t1'' ''c1'' = None"
           "cellOf (userMatrix initialMatrixState) ''t2'' ''c1'' = None"
    by (simp_all add: initialMatrixState_def cellOf_def)
  have ne: "(''t2'', ''c1'') \<noteq> (''t1'', ''c1'')" by simp
  have s: "success (initialMatrixState\<lparr>success := True\<rparr>)" by simp
  from toggleCell_cycle [of initialMatrixState "''t1''" "''c1''"] ns c0 ne
  have "cellOf (userMatrix (toggleCell ''t1'' ''c1'' initialMatrixState)) ''t1'' ''c1'' = Some True"
       "cellOf (userMatrix (toggleCell ''t1'' ''c1'' initialMatrixState)) ''t2'' ''c1'' = None"
    by metis+
  moreover from toggleCell_cycle [of "initialMatrixState\<lparr>success := True\<rparr>" "''t1''" "''c1''"] s
  have "toggleCell ''t1'' ''c1'' (initialMatrixState\<lparr>success := True\<rparr>)
          = initialMatrixState\<lparr>success := True\<rparr>"
    by blast
  ultimately show ?thesis using ns s by blast
qed

section \<open>Properties of the tree builder\<close>

text \<open>
  Claim C2. Called while success has not been declared (the only call is behind that
  guard), the completion check declares success exactly when every slot is filled and
  every slot holds its expected id. When every slot is filled and some slot holds
  another id, success stays false and the mistake counter grows by exactly one; in the
  remaining cases the counter keeps its value. The slots and the selection are not
  touched.
\<close>

theorem checkCompletion_spec:
  "\<not> success_tree st \<Longrightarrow>
     (success_tree (checkCompletion ss st) \<longleftrightarrow>
        (\<forall>s \<in> set ss. filledWithId s \<noteq> None) \<and> (\<forall>s \<in> set ss. filledWithId s = expectedId s))
   \<and> ((\<forall>s \<in> set ss. filledWithId s \<noteq> None) \<and> (\<exists>s \<in> set ss. filledWithId s \<noteq> expectedId s) \<longrightarrow>
        \<not> success_tree (checkCompletion ss st) \<and> mistakes (checkCompletion ss st) = mistakes st + 1)
   \<and> ((\<exists>s \<in> set ss. filledWithId s = None) \<or> (\<forall>s \<in> set ss. filledWithId s = expectedId s) \<longrightarrow>
        mistakes (checkCompletion ss st) = mistakes st)
   \<and> slots (checkCompletion ss st) = slots st
   \<and> selectedItemId (checkCompletion ss st) = selectedItemId st"
  by (auto simp: checkCompletion_def Let_def list_all_iff)

theorem checkCompletion_spec_witness:
  "(let wrong = [\<lparr>slot_id = ''attr-0'', slot_type = attribute, slot_x = 0, slot_y = 0,
                   expectedId = Some ''c1'', filledWithId = Some ''c2''\<rparr>];
        st = \<lparr>slots = wrong, selectedItemId = None, success_tree = False, mistakes = 4\<rparr>
    in \<not> success_tree st \<and> \<not> success_tree (checkCompletion wrong st)
       \<and> mistakes (checkCompletion wrong st) = 5)
   \<and> (let right = [\<lparr>slot_id = ''attr-0'', slot_type = attribute, slot_x = 0, slot_y = 0,
                      expectedId = Some ''c1'', filledWithId = Some ''c1''\<rparr>];
           st = \<lparr>slots = right, selectedItemId = None, success_tree = False, mistakes = 4\<rparr>
       in \<not> success_tree st \<and> success_tree (checkCompletion right st)
          \<and> mistakes (checkCompletion right st) = 4)"
  using checkCompletion_spec
          [of "\<lparr>slots = [\<lparr>slot_id = ''attr-0'', slot_type = attribute, slot_x = 0, slot_y = 0,
                            expectedId = Some ''c1'', filledWithId = Some ''c2''\<rparr>],
                 selectedItemId = None, success_tree = False, mistakes = 4\<rparr>"
              "[\<lparr>slot_id = ''attr-0'', slot_type = attribute, slot_x = 0, slot_y = 0,
                 expectedId = Some ''c1'', filledWithId = Some ''c2''\<rparr>]"]
        checkCompletion_spec
          [of "\<lparr>slots = [\<lparr>slot_id = ''attr-0'', slot_type = attribute, slot_x = 0, slot_y = 0,
                            expectedId = Some ''c1'', filledWithId = Some ''c1''\<rparr>],
                 selectedItemId = None, success_tree = False, mistakes = 4\<rparr>"
              "[\<lparr>slot_id = ''attr-0'', slot_type = attribute, slot_x = 0, slot_y = 0,
                 expectedId = Some ''c1'', filledWithId = Some ''c1''\<rparr>]"]
  by (simp add: Let_def)

section \<open>Properties of the teacher zone\<close>

text \<open>
  Claim C10. Submitting the form while not authenticated authenticates exactly when the
  entered password, put in lower case and then trimmed, is the text \<open>darwin\<close>; in that
  case the error flag is cleared and the field keeps its text. On any other input the
  zone stays unauthenticated, the error flag is set and the field is emptied.
\<close>

theorem handleLogin_spec:
  "\<not> isAuthenticated st \<Longrightarrow>
     (isAuthenticated (handleLogin st) \<longleftrightarrow> trim (toLowerCase (passwordInput st)) = ''darwin'')
   \<and> (trim (toLowerCase (passwordInput st)) = ''darwin'' \<longrightarrow>
        handleLogin st = st\<lparr>isAuthenticated := True, error_tz := False\<rparr>)
   \<and> (trim (toLowerCase (passwordInput st)) \<noteq> ''darwin'' \<longrightarrow>
        \<not> isAuthenticated (handleLogin st) \<and> error_tz (handleLogin st)
        \<and> passwordInput (handleLogin st) = [])"
  by (simp add: handleLogin_def)

lemma trim_example_accepted: "trim (toLowerCase '' DarWIN  '') = ''darwin''"
  by code_simp

lemma trim_example_rejected: "trim (toLowerCase ''dar win'') \<noteq> ''darwin''"
  by code_simp

theorem handleLogin_spec_witness:
  "\<not> isAuthenticated (initialTeacherState\<lparr>passwordInput := '' DarWIN  ''\<rparr>)
   \<and> isAuthenticated (handleLogin (initialTeacherState\<lparr>passwordInput := '' DarWIN  ''\<rparr>))
   \<and> \<not> isAuthenticated (initialTeacherState\<lparr>passwordInput := ''dar win''\<rparr>)
   \<and> \<not> isAuthenticated (handleLogin (initialTeacherState\<lparr>passwordInput := ''dar win''\<rparr>))
   \<and> error_tz (handleLogin (initialTeacherState\<lparr>passwordInput := ''dar win''\<rparr>))
   \<and> passwordInput (handleLogin (initialTeacherState\<lparr>passwordInput := ''dar win''\<rparr>)) = []"
proof -
  have n1: "\<not> isAuthenticated (initialTeacherState\<lparr>passwordInput := '' DarWIN  ''\<rparr>)"
   and n2: "\<not> isAuthenticated (initialTeacherState\<lparr>passwordInput := ''dar win''\<rparr>)"
    by (simp_all add: initialTeacherState_def)
  have p1: "trim (toLowerCase (passwordInput (initialTeacherState\<lparr>passwordInput := '' DarWIN  ''\<rparr>)))
              = ''darwin''"
    using trim_example_accepted by simp
  have p2: "trim (toLowerCase (passwordInput (initialTeacherState\<lparr>passwordInput := ''dar win''\<rparr>)))
              \<noteq> ''darwin''"
    using trim_example_rejected by simp
  from handleLogin_spec [OF n1] p1
  have "isAuthenticated (handleLogin (initialTeacherState\<lparr>passwordInput := '' DarWIN  ''\<rparr>))"
    by blast
  moreover from handleLogin_spec [OF n2] p2
  have "\<not> isAuthenticated (handleLogin (initialTeacherState\<lparr>passwordInput := ''dar win''\<rparr>))
        \<and> error_tz (handleLogin (initialTeacherState\<lparr>passwordInput := ''dar win''\<rparr>))
        \<and> passwordInput (handleLogin (initialTeacherState\<lparr>passwordInput := ''dar win''\<rparr>)) = []"
    by blast
  ultimately show ?thesis using n1 n2 by blast
qed

section \<open>Properties of the matrix check\<close>

text \<open>
  What the code decides in general: called before success, the check declares success
  exactly when every cell is set and every cell is strictly equal to the value read from
  the answer key, which is \<open>None\<close> (\<^verbatim>\<open>undefined\<close>) for a taxon without a row.
\<close>

lemma checkMatrix_success_iff:
  "\<not> success st \<Longrightarrow>
   success (fst (checkMatrix ts cs cm st)) \<longleftrightarrow>
     (\<forall>t \<in> set ts. \<forall>c \<in> set cs.
        cellOf (userMatrix st) (t_id t) (c_id c) \<noteq> None \<and>
        cellOf (userMatrix st) (t_id t) (c_id c) = shouldBePresent cm (t_id t) (c_id c))"
  by (auto simp: checkMatrix_def Let_def checkLoops_hasErrors checkLoops_allFilled)

lemma checkMatrix_alert_iff:
  "snd (checkMatrix ts cs cm st) \<longleftrightarrow>
     (\<exists>t \<in> set ts. \<exists>c \<in> set cs. cellOf (userMatrix st) (t_id t) (c_id c) = None)"
  by (auto simp: checkMatrix_def Let_def checkLoops_allFilled)

lemma checkMatrix_alert_only:
  "snd (checkMatrix ts cs cm st) \<Longrightarrow> fst (checkMatrix ts cs cm st) = st"
  by (auto simp: checkMatrix_def Let_def split: if_splits)

lemma checkMatrix_showErrors_iff:
  "\<not> showErrors st \<Longrightarrow>
   showErrors (fst (checkMatrix ts cs cm st)) \<longleftrightarrow>
     (\<forall>t \<in> set ts. \<forall>c \<in> set cs. cellOf (userMatrix st) (t_id t) (c_id c) \<noteq> None) \<and>
     (\<exists>t \<in> set ts. \<exists>c \<in> set cs.
        cellOf (userMatrix st) (t_id t) (c_id c) \<noteq> shouldBePresent cm (t_id t) (c_id c))"
  by (auto simp: checkMatrix_def Let_def checkLoops_hasErrors checkLoops_allFilled)

lemma matrixButton_advance_iff: "matrixButton st = ConstruireArbre \<longleftrightarrow> success st"
  by (simp add: matrixButton_def)

text \<open>
  Claim C1, at a payload whose answer key has no row for taxon \<open>t1\<close> (the key is the one
  \<^verbatim>\<open>generateExercise\<close> builds from a matrix list that names only \<open>t2\<close>). Every cell of
  the grid is set, the cell of \<open>t1\<close> is absent and \<open>c1\<close> is in no list of \<open>t1\<close>, the
  cell of \<open>t2\<close> is present and \<open>c1\<close> is in the list of \<open>t2\<close>; the check nevertheless
  raises no alert, does not declare success and shows errors.
\<close>

theorem checkMatrix_omitted_row:
  "buildCorrectMatrix (Some omittedRowList) = [(''t2'', [''c1''])]
   \<and> cellOf (userMatrix omittedRowGrid) ''t1'' ''c1'' = Some False
   \<and> cellOf (userMatrix omittedRowGrid) ''t2'' ''c1'' = Some True
   \<and> map_of (buildCorrectMatrix (Some omittedRowList)) ''t1'' = None
   \<and> map_of (buildCorrectMatrix (Some omittedRowList)) ''t2'' = Some [''c1'']
   \<and> \<not> success omittedRowGrid
   \<and> \<not> success (fst (checkMatrix omittedRowTaxons omittedRowCharacters
                        (buildCorrectMatrix (Some omittedRowList)) omittedRowGrid))
   \<and> showErrors (fst (checkMatrix omittedRowTaxons omittedRowCharacters
                        (buildCorrectMatrix (Some omittedRowList)) omittedRowGrid))
   \<and> \<not> snd (checkMatrix omittedRowTaxons omittedRowCharacters
                (buildCorrectMatrix (Some omittedRowList)) omittedRowGrid)"
  by code_simp

section \<open>Properties of the shuffle\<close>

lemma randomIndex_le: "0 \<le> r \<Longrightarrow> r < 1 \<Longrightarrow> randomIndex r i \<le> i"
proof -
  assume r: "0 \<le> r" "r < 1"
  have "r * (of_nat i + 1) < 1 * (of_nat i + 1)"
    using r by (intro mult_strict_right_mono) simp_all
  then have "r * (of_nat i + 1) < of_int (int i + 1)"
    by simp
  then have "\<lfloor>r * (of_nat i + 1)\<rfloor> < int i + 1"
    by (simp only: floor_less_iff)
  then show ?thesis by (simp add: randomIndex_def)
qed

lemma length_swap: "length (swap xs i j) = length xs"
  by (simp add: swap_def)

lemma mset_swap_in_range: "i < length xs \<Longrightarrow> j < length xs \<Longrightarrow> mset (swap xs i j) = mset xs"
  unfolding swap_def by (rule mset_swap)

lemma shuffleLoop_length: "length (shuffleLoop rnd k i xs) = length xs"
  by (induction i arbitrary: k xs) (simp_all add: length_swap)

lemma shuffleLoop_mset:
  "\<forall>k. 0 \<le> rnd k \<and> rnd k < 1 \<Longrightarrow> i < length xs \<Longrightarrow> mset (shuffleLoop rnd k i xs) = mset xs"
proof (induction i arbitrary: k xs)
  case 0
  show ?case by simp
next
  case (Suc i)
  have j: "randomIndex (rnd k) (Suc i) < length xs"
    using randomIndex_le [of "rnd k" "Suc i"] Suc.prems by (meson le_less_trans)
  have "mset (shuffleLoop rnd (Suc k) i (swap xs (Suc i) (randomIndex (rnd k) (Suc i))))
          = mset (swap xs (Suc i) (randomIndex (rnd k) (Suc i)))"
    using Suc.prems by (intro Suc.IH) (simp_all add: length_swap)
  also have "\<dots> = mset xs"
    using Suc.prems j by (simp add: mset_swap_in_range)
  finally show ?case by simp
qed

lemma shuffleArray_mset:
  "\<forall>k. 0 \<le> rnd k \<and> rnd k < 1 \<Longrightarrow> mset (shuffleArray rnd xs) = mset xs"
proof (cases xs)
  case Nil
  then show ?thesis by (simp add: shuffleArray_def)
next
  case (Cons a as)
  assume "\<forall>k. 0 \<le> rnd k \<and> rnd k < 1"
  then show ?thesis unfolding shuffleArray_def
    by (rule shuffleLoop_mset) (simp add: Cons)
qed

lemma shuffleArray_length: "length (shuffleArray rnd xs) = length xs"
  by (simp add: shuffleArray_def shuffleLoop_length)

lemma shuffleArray_set:
  "\<forall>k. 0 \<le> rnd k \<and> rnd k < 1 \<Longrightarrow> set (shuffleArray rnd xs) = set xs"
  using shuffleArray_mset [of rnd xs] by (metis set_mset_mset)

lemma shuffleLoopStore_eq:
  "b < length h \<Longrightarrow> shuffleLoopStore rnd k i b h = h[b := shuffleLoop rnd k i (h ! b)]"
  by (induction i arbitrary: k h) simp_all

lemma shuffleArrayStore_eq:
  "shuffleArrayStore rnd a h = (length h, h @ [shuffleArray rnd (h ! a)])"
  by (simp add: shuffleArrayStore_def Let_def shuffleLoopStore_eq shuffleArray_def)

lemma shuffleData_taxons_mset:
  "\<forall>k. 0 \<le> rnd k \<and> rnd k < 1 \<Longrightarrow> mset (taxons (shuffleData rnd data)) = mset (taxons data)"
  by (simp add: shuffleData_def shuffleArray_mset)

lemma shuffleData_characters_mset:
  "\<forall>k. 0 \<le> rnd k \<and> rnd k < 1 \<Longrightarrow>
     mset (characters (shuffleData rnd data)) = mset (characters data)"
  by (simp add: shuffleData_def shuffleArray_mset)

lemma shuffleData_other_fields:
  "title (shuffleData rnd data) = title data
   \<and> difficulty (shuffleData rnd data) = difficulty data
   \<and> correctMatrix (shuffleData rnd data) = correctMatrix data
   \<and> evolutionOrder (shuffleData rnd data) = evolutionOrder data"
  by (simp add: shuffleData_def)

text \<open>
  Claim C8. With a random source that returns numbers in \<open>[0, 1)\<close>, as \<^verbatim>\<open>Math.random\<close>
  does, the shuffled list has the elements of the input with the same multiplicities
  and the same length. On the store the function writes only to the copy it allocates:
  every array that existed before the call, the input among them, is unchanged, and the
  returned address holds the shuffled list. Hence the payload shown to the student has
  the same taxa and the same characters as the payload it was made from, and its other
  fields are the same.
\<close>

theorem shuffleArray_permutation:
  assumes "\<forall>k. 0 \<le> rnd k \<and> rnd k < 1"
  shows "mset (shuffleArray rnd xs) = mset xs
     \<and> length (shuffleArray rnd xs) = length xs
     \<and> (array < length h \<longrightarrow>
          fst (shuffleArrayStore rnd array h) = length h
          \<and> take (length h) (snd (shuffleArrayStore rnd array h)) = h
          \<and> snd (shuffleArrayStore rnd array h) ! array = h ! array
          \<and> snd (shuffleArrayStore rnd array h) ! fst (shuffleArrayStore rnd array h)
              = shuffleArray rnd (h ! array))
     \<and> mset (taxons (shuffleData rnd data)) = mset (taxons data)
     \<and> mset (characters (shuffleData rnd data)) = mset (characters data)
     \<and> correctMatrix (shuffleData rnd data) = correctMatrix data
     \<and> evolutionOrder (shuffleData rnd data) = evolutionOrder data"
  using assms
  by (simp add: shuffleArray_mset shuffleArray_length shuffleArrayStore_eq nth_append
        shuffleData_taxons_mset shuffleData_characters_mset shuffleData_other_fields)

theorem shuffleArray_permutation_witness:
  "0 \<le> halfSource 0 \<and> halfSource 0 < 1
   \<and> shuffleArray halfSource [1, 2, 3, 4 :: nat] = [1, 4, 2, 3]
   \<and> mset (shuffleArray halfSource [1, 2, 3, 4 :: nat]) = mset [1, 2, 3, 4]
   \<and> (0::nat) < length [[1, 2, 3, 4 :: nat]]
   \<and> snd (shuffleArrayStore halfSource 0 [[1, 2, 3, 4 :: nat]]) ! 0 = [1, 2, 3, 4]
   \<and> mset (taxons (shuffleData halfSource DEFAULT_DATA)) = mset (taxons DEFAULT_DATA)"
proof -
  have h: "\<forall>k. 0 \<le> halfSource k \<and> halfSource k < 1"
    by (simp add: halfSource_def)
  have e: "shuffleArray halfSource [1, 2, 3, 4 :: nat] = [1, 4, 2, 3]"
    by code_simp
  have l: "(0::nat) < length [[1, 2, 3, 4 :: nat]]" by simp
  from shuffleArray_permutation [OF h, of "[1, 2, 3, 4 :: nat]" 0 "[[1, 2, 3, 4 :: nat]]" DEFAULT_DATA] l
  have "mset (shuffleArray halfSource [1, 2, 3, 4 :: nat]) = mset [1, 2, 3, 4]
        \<and> snd (shuffleArrayStore halfSource 0 [[1, 2, 3, 4 :: nat]]) ! 0 = [1, 2, 3, 4]
        \<and> mset (taxons (shuffleData halfSource DEFAULT_DATA)) = mset (taxons DEFAULT_DATA)"
    by simp
  then show ?thesis using h e l by blast
qed

section \<open>Properties of the tree layout\<close>



























section \<open>Properties of the payload\<close>

lemma referencedIdsExist_default: "referencedIdsExist DEFAULT_DATA"
  by code_simp

lemma shuffleData_ids:
  assumes "\<forall>k. 0 \<le> rnd k \<and> rnd k < 1"
  shows "taxonIds (shuffleData rnd data) = taxonIds data"
    and "characterIds (shuffleData rnd data) = characterIds data"
  using assms by (simp_all add: taxonIds_def characterIds_def shuffleData_def shuffleArray_set)

lemma referencedIdsExist_shuffleData:
  assumes "\<forall>k. 0 \<le> rnd k \<and> rnd k < 1"
  shows "referencedIdsExist (shuffleData rnd data) = referencedIdsExist data"
  unfolding referencedIdsExist_def shuffleData_ids [OF assms]
  by (simp add: shuffleData_other_fields)

text \<open>Every entry of the answer key built from a matrix list comes from an item of the list.\<close>

lemma fold_update_entries:
  assumes "\<forall>k cs. map_of cm0 k = Some cs \<longrightarrow> P k cs"
    and "\<forall>item \<in> set items. P (taxonId item) (case presentCharacterIds item of None \<Rightarrow> [] | Some cs \<Rightarrow> cs)"
    and "map_of (fold (\<lambda>item cm. AList.update (taxonId item)
                  (case presentCharacterIds item of None \<Rightarrow> [] | Some cs \<Rightarrow> cs) cm) items cm0) k = Some cs"
  shows "P k cs"
  using assms
proof (induction items arbitrary: cm0)
  case Nil
  then show ?case by simp
next
  case (Cons item items)
  let ?cm1 = "AList.update (taxonId item)
                  (case presentCharacterIds item of None \<Rightarrow> [] | Some cs \<Rightarrow> cs) cm0"
  have "\<forall>k cs. map_of ?cm1 k = Some cs \<longrightarrow> P k cs"
    using Cons.prems(1,2) by (auto simp: update_conv')
  moreover have "\<forall>item \<in> set items. P (taxonId item) (case presentCharacterIds item of None \<Rightarrow> [] | Some cs \<Rightarrow> cs)"
    using Cons.prems(2) by simp
  moreover have "map_of (fold (\<lambda>item cm. AList.update (taxonId item)
                  (case presentCharacterIds item of None \<Rightarrow> [] | Some cs \<Rightarrow> cs) cm) items ?cm1) k = Some cs"
    using Cons.prems(3) by simp
  ultimately show ?case by (rule Cons.IH)
qed

lemma buildCorrectMatrix_entries:
  assumes "\<forall>item \<in> set (case ml of None \<Rightarrow> [] | Some items \<Rightarrow> items).
             P (taxonId item) (case presentCharacterIds item of None \<Rightarrow> [] | Some cs \<Rightarrow> cs)"
    and "map_of (buildCorrectMatrix ml) k = Some cs"
  shows "P k cs"
proof (cases ml)
  case None
  then show ?thesis using assms(2) by (simp add: buildCorrectMatrix_def)
next
  case (Some items)
  have "\<forall>k cs. map_of ([] :: CorrectMatrix) k = Some cs \<longrightarrow> P k cs" by simp
  moreover have "\<forall>item \<in> set items. P (taxonId item) (case presentCharacterIds item of None \<Rightarrow> [] | Some cs \<Rightarrow> cs)"
    using assms(1) Some by simp
  moreover have "map_of (fold (\<lambda>item cm. AList.update (taxonId item)
                  (case presentCharacterIds item of None \<Rightarrow> [] | Some cs \<Rightarrow> cs) cm) items []) k = Some cs"
    using assms(2) Some by (simp add: buildCorrectMatrix_def)
  ultimately show ?thesis by (rule fold_update_entries)
qed

text \<open>The payload \<^verbatim>\<open>generateExercise\<close> returns for a parsed response.\<close>

lemma generateExercise_Inr:
  assumes "fst (generateExercise w tp d f) = Inr data"
  shows "\<exists>txt raw. truthy (API_KEY w)
           \<and> generateContent w \<lparr>req_topic = tp, req_difficulty = d, req_includeFossils = f\<rparr> = Inr (Some txt)
           \<and> txt \<noteq> [] \<and> JSON_parse w txt = Inr raw
           \<and> data = \<lparr>title = raw_title raw, difficulty = d, taxons = raw_taxons raw,
                      characters = raw_characters raw,
                      correctMatrix = buildCorrectMatrix (matrixList raw),
                      evolutionOrder = raw_evolutionOrder raw\<rparr>
           \<and> snd (generateExercise w tp d f) = 1"
  using assms
  by (auto simp: generateExercise_def truthy_def split: if_splits sum.splits option.splits)

lemma referencedIdsExist_of_raw:
  assumes "rawReferencedIdsExist raw"
  shows "referencedIdsExist \<lparr>title = raw_title raw, difficulty = d, taxons = raw_taxons raw,
                      characters = raw_characters raw,
                      correctMatrix = buildCorrectMatrix (matrixList raw),
                      evolutionOrder = raw_evolutionOrder raw\<rparr>"
proof -
  let ?P = "\<lambda>k cs. k \<in> set (map t_id (raw_taxons raw)) \<and> (\<forall>c \<in> set cs. c \<in> set (map c_id (raw_characters raw)))"
  have items: "\<forall>item \<in> set (case matrixList raw of None \<Rightarrow> [] | Some items \<Rightarrow> items).
             ?P (taxonId item) (case presentCharacterIds item of None \<Rightarrow> [] | Some cs \<Rightarrow> cs)"
    using assms by (simp add: rawReferencedIdsExist_def)
  have entry: "?P k cs" if "map_of (buildCorrectMatrix (matrixList raw)) k = Some cs" for k cs
    using buildCorrectMatrix_entries [where P = ?P, OF items that] .
  have key: "k \<in> set (map t_id (raw_taxons raw))
             \<and> (case map_of (buildCorrectMatrix (matrixList raw)) k of None \<Rightarrow> True
                | Some cs \<Rightarrow> \<forall>c \<in> set cs. c \<in> set (map c_id (raw_characters raw)))"
    if "k \<in> set (map fst (buildCorrectMatrix (matrixList raw)))" for k
  proof -
    from that obtain cs where "map_of (buildCorrectMatrix (matrixList raw)) k = Some cs"
      by (metis map_of_eq_None_iff not_Some_eq set_map)
    then show ?thesis using entry [of k cs] by simp
  qed
  have evo: "\<forall>stp \<in> set (raw_evolutionOrder raw).
        (case branchingTaxonId stp of None \<Rightarrow> True
         | Some t \<Rightarrow> t \<in> set (map t_id (raw_taxons raw))) \<and>
        (case characterId stp of None \<Rightarrow> True
         | Some c \<Rightarrow> c \<in> set (map c_id (raw_characters raw)))"
    using assms by (simp add: rawReferencedIdsExist_def)
  show ?thesis
    unfolding referencedIdsExist_def taxonIds_def characterIds_def
    using key evo by (simp cong: option.case_cong)
qed

text \<open>
  Claim C7 as stated fails for \<^verbatim>\<open>generateExercise\<close>: the service copies the parsed
  response without checking it, so a response whose matrix list names a taxon that is
  not among its taxa yields a payload that breaks the invariant.
\<close>

theorem generateExercise_dangling_id:
  "fst (generateExercise danglingWorld [] Facile False) = Inr danglingPayload
   \<and> \<not> referencedIdsExist danglingPayload"
  by code_simp

text \<open>
  Claim C7, amended. The invariant "referenced ids exist" holds for the built-in default
  payload; the shuffling applied before display neither establishes nor breaks it (with
  a random source in \<open>[0, 1)\<close>); and a payload returned by \<^verbatim>\<open>generateExercise\<close> is
  built from a parsed response and satisfies the invariant whenever that response
  references only ids of its own taxa and characters.
\<close>

theorem referencedIdsExist_preserved:
  "referencedIdsExist DEFAULT_DATA
   \<and> ((\<forall>k. 0 \<le> rnd k \<and> rnd k < 1) \<longrightarrow>
        referencedIdsExist (shuffleData rnd data) = referencedIdsExist data)
   \<and> (fst (generateExercise w tp d f) = Inr data' \<longrightarrow>
        (\<exists>txt raw.
           generateContent w \<lparr>req_topic = tp, req_difficulty = d, req_includeFossils = f\<rparr>
             = Inr (Some txt)
           \<and> JSON_parse w txt = Inr raw
           \<and> (rawReferencedIdsExist raw \<longrightarrow> referencedIdsExist data')))"
proof (intro conjI impI)
  show "referencedIdsExist DEFAULT_DATA" by (rule referencedIdsExist_default)
next
  assume "\<forall>k. 0 \<le> rnd k \<and> rnd k < 1"
  then show "referencedIdsExist (shuffleData rnd data) = referencedIdsExist data"
    by (rule referencedIdsExist_shuffleData)
next
  assume "fst (generateExercise w tp d f) = Inr data'"
  then have "\<exists>txt raw. truthy (API_KEY w)
           \<and> generateContent w \<lparr>req_topic = tp, req_difficulty = d, req_includeFossils = f\<rparr> = Inr (Some txt)
           \<and> txt \<noteq> [] \<and> JSON_parse w txt = Inr raw
           \<and> data' = \<lparr>title = raw_title raw, difficulty = d, taxons = raw_taxons raw,
                      characters = raw_characters raw,
                      correctMatrix = buildCorrectMatrix (matrixList raw),
                      evolutionOrder = raw_evolutionOrder raw\<rparr>
           \<and> snd (generateExercise w tp d f) = 1"
    by (rule generateExercise_Inr)
  then obtain body raw
    where g: "generateContent w \<lparr>req_topic = tp, req_difficulty = d, req_includeFossils = f\<rparr>
          = Inr (Some body)"
    and p: "JSON_parse w body = Inr raw"
    and e: "data' = \<lparr>title = raw_title raw, difficulty = d, taxons = raw_taxons raw,
                      characters = raw_characters raw,
                      correctMatrix = buildCorrectMatrix (matrixList raw),
                      evolutionOrder = raw_evolutionOrder raw\<rparr>"
    by blast
  have "rawReferencedIdsExist raw \<longrightarrow> referencedIdsExist data'"
    unfolding e by (rule impI) (rule referencedIdsExist_of_raw)
  with g p show "\<exists>txt raw.
           generateContent w \<lparr>req_topic = tp, req_difficulty = d, req_includeFossils = f\<rparr>
             = Inr (Some txt)
           \<and> JSON_parse w txt = Inr raw
           \<and> (rawReferencedIdsExist raw \<longrightarrow> referencedIdsExist data')"
    by blast
qed

theorem referencedIdsExist_preserved_witness:
  "0 \<le> halfSource 0 \<and> halfSource 0 < 1
   \<and> referencedIdsExist DEFAULT_DATA
   \<and> referencedIdsExist (shuffleData halfSource DEFAULT_DATA)
   \<and> fst (generateExercise soundWorld [] Facile False) = Inr DEFAULT_DATA
   \<and> rawReferencedIdsExist soundRaw"
proof -
  have h: "\<forall>k. 0 \<le> halfSource k \<and> halfSource k < 1"
    by (simp add: halfSource_def)
  have g: "fst (generateExercise soundWorld [] Facile False) = Inr DEFAULT_DATA"
    by code_simp
  have r: "rawReferencedIdsExist soundRaw"
    by code_simp
  note inst = referencedIdsExist_preserved
               [of halfSource DEFAULT_DATA soundWorld "[]" Facile False DEFAULT_DATA]
  from inst g obtain body raw
    where gc: "generateContent soundWorld
                 \<lparr>req_topic = [], req_difficulty = Facile, req_includeFossils = False\<rparr>
               = Inr (Some body)"
      and jp: "JSON_parse soundWorld body = Inr raw"
      and imp: "rawReferencedIdsExist raw \<longrightarrow> referencedIdsExist DEFAULT_DATA"
    by blast
  have "body = ''{default exercise}''" using gc by (simp add: soundWorld_def)
  then have "raw = soundRaw" using jp by (simp add: soundWorld_def)
  with imp r have d: "referencedIdsExist DEFAULT_DATA" by simp
  from inst h
  have "referencedIdsExist (shuffleData halfSource DEFAULT_DATA) = referencedIdsExist DEFAULT_DATA"
    by blast
  then show ?thesis using h g r d by simp
qed

section \<open>The invariant of the tree builder\<close>

lemma placedIds_Nil [simp]: "placedIds [] = []" by (simp add: placedIds_def)
lemma placedIds_Cons:
  "placedIds (s # ss) = (if truthy (filledWithId s) then [the (filledWithId s)] else []) @ placedIds ss"
  by (auto simp: placedIds_def truthy_def split: option.splits)

lemma placedIds_update_None:
  "i < length ss \<Longrightarrow> set (placedIds (ss[i := (ss ! i)\<lparr>filledWithId := None\<rparr>])) \<subseteq> set (placedIds ss)
     \<and> (distinct (placedIds ss) \<longrightarrow> distinct (placedIds (ss[i := (ss ! i)\<lparr>filledWithId := None\<rparr>])))"
proof (induction ss arbitrary: i)
  case Nil then show ?case by simp
next
  case (Cons s ss)
  show ?case
  proof (cases i)
    case 0
    then show ?thesis by (auto simp: placedIds_Cons truthy_def)
  next
    case (Suc j)
    then show ?thesis using Cons.IH [of j] Cons.prems by (auto simp: placedIds_Cons)
  qed
qed

lemma placedIds_update_Some:
  "i < length ss \<Longrightarrow> \<not> truthy (filledWithId (ss ! i)) \<Longrightarrow>
     placedIds (ss[i := (ss ! i)\<lparr>filledWithId := Some ident\<rparr>]) =
       (if ident = [] then placedIds ss
        else placedIds (take i ss) @ [ident] @ placedIds (drop (Suc i) ss))
     \<and> placedIds ss = placedIds (take i ss) @ placedIds (drop (Suc i) ss)"
proof (induction ss arbitrary: i)
  case Nil then show ?case by simp
next
  case (Cons s ss)
  show ?case
  proof (cases i)
    case 0
    then show ?thesis using Cons.prems by (auto simp: placedIds_Cons truthy_def)
  next
    case (Suc j)
    then show ?thesis using Cons.IH [of j] Cons.prems by (auto simp: placedIds_Cons)
  qed
qed

lemma findIndex_Some: "findIndex P xs = Some i \<Longrightarrow> i < length xs \<and> P (xs ! i)"
  by (induction xs arbitrary: i) (auto split: if_splits)

lemma checkCompletion_slots: "slots (checkCompletion cs st) = slots st \<and> selectedItemId (checkCompletion cs st) = selectedItemId st"
  by (simp add: checkCompletion_def Let_def)

lemma treeInv_handleSlotClick: "treeInv ts \<Longrightarrow> treeInv (handleSlotClick slotId ts)"
proof -
  assume inv: "treeInv ts"
  show ?thesis
  proof (cases "success_tree ts")
    case True then show ?thesis using inv by (simp add: handleSlotClick_def)
  next
    case ns: False
    show ?thesis
    proof (cases "findIndex (\<lambda>s. slot_id s = slotId) (slots ts)")
      case None then show ?thesis using inv ns by (simp add: handleSlotClick_def)
    next
      case (Some i)
      then have i: "i < length (slots ts)" using findIndex_Some by fastforce
      show ?thesis
      proof (cases "truthy (filledWithId (slots ts ! i))")
        case True
        have "handleSlotClick slotId ts = ts\<lparr>slots := (slots ts)[i := (slots ts ! i)\<lparr>filledWithId := None\<rparr>]\<rparr>"
          using ns Some True by (simp add: handleSlotClick_def Let_def)
        then show ?thesis
          using inv placedIds_update_None [OF i]
          by (auto simp: treeInv_def split: option.splits)
      next
        case empty: False
        show ?thesis
        proof (cases "selectedItemId ts")
          case None
          then show ?thesis using inv ns Some empty by (simp add: handleSlotClick_def Let_def)
        next
          case (Some sel)
          obtain ident ty where sel: "sel = (ident, ty)" by (cases sel)
          show ?thesis
          proof (cases "ty = slot_type (slots ts ! i)")
            case False
            then show ?thesis
              using inv ns \<open>findIndex (\<lambda>s. slot_id s = slotId) (slots ts) = Some i\<close> empty Some sel
              by (simp add: handleSlotClick_def Let_def)
          next
            case True
            let ?ss = "(slots ts)[i := (slots ts ! i)\<lparr>filledWithId := Some ident\<rparr>]"
            have h: "handleSlotClick slotId ts
                    = checkCompletion ?ss (ts\<lparr>slots := ?ss, selectedItemId := None\<rparr>)"
              using ns \<open>findIndex (\<lambda>s. slot_id s = slotId) (slots ts) = Some i\<close> empty Some sel True
              by (simp add: handleSlotClick_def Let_def)
            have notin: "ident \<notin> set (placedIds (slots ts))" and d: "distinct (placedIds (slots ts))"
              using inv Some sel by (auto simp: treeInv_def)
            have "distinct (placedIds ?ss)"
              using placedIds_update_Some [OF i empty, of ident] notin d by auto
            then show ?thesis
              by (simp add: h treeInv_def checkCompletion_slots)
          qed
        qed
      qed
    qed
  qed
qed

lemma treeInv_handleItemClick:
  "treeInv ts \<Longrightarrow> ident \<in> set (getAvailableItems data ts ty) \<Longrightarrow> treeInv (handleItemClick ident ty ts)"
  by (auto simp: treeInv_def handleItemClick_def getAvailableItems_def availableTaxons_def
        availableCharacters_def split: option.splits if_splits)

lemma fossilEffect_filled:
  "map filledWithId (slots (fossilEffect data ts)) = map filledWithId (slots ts)"
  by (auto simp: fossilEffect_def split: option.splits)

lemma fossilEffect_other:
  "selectedItemId (fossilEffect data ts) = selectedItemId ts
   \<and> success_tree (fossilEffect data ts) = success_tree ts
   \<and> mistakes (fossilEffect data ts) = mistakes ts"
  by (simp add: fossilEffect_def)

lemma placedIds_fossil: "placedIds (slots (fossilEffect data ts)) = placedIds (slots ts)"
  by (simp add: placedIds_def fossilEffect_filled)

lemma treeInv_fossilEffect: "treeInv ts \<Longrightarrow> treeInv (fossilEffect data ts)"
  by (simp add: treeInv_def placedIds_fossil fossilEffect_other cong: option.case_cong)

lemma stepSlots_empty: "\<forall>s \<in> set (stepSlots data tip i stp). filledWithId s = None"
  by (auto simp: stepSlots_def Let_def)

lemma newSlots_empty: "newSlots data = Some ss \<Longrightarrow> \<forall>s \<in> set ss. filledWithId s = None"
  by (auto simp: newSlots_def stepSlots_empty split: option.splits)

lemma placedIds_all_empty: "\<forall>s \<in> set ss. filledWithId s = None \<Longrightarrow> placedIds ss = []"
  by (induction ss) (simp_all add: placedIds_Cons truthy_def)

lemma treeInv_initial: "initialTreeState data = Some ts \<Longrightarrow> treeInv ts"
  by (auto simp: initialTreeState_def treeInv_def newSlots_empty placedIds_all_empty split: option.splits)


section \<open>Properties of the application\<close>

lemma setState_fields:
  "state (setState s a) = s"
  "exerciseData (setState s a) = exerciseData a"
  "inFlight (setState s a) = inFlight a"
  "loading (setState s a) = loading a"
  "requests (setState s a) = requests a"
  "error_app (setState s a) = error_app a"
  "topic (setState s a) = topic a"
  "s \<noteq> Tree \<Longrightarrow> treeExercise (setState s a) = (if s = state a then treeExercise a else None)"
  by (auto simp: setState_def Let_def split: option.splits)

lemma setState_Tree:
  "treeExercise (setState Tree a) = Some ts \<Longrightarrow>
     treeExercise a = Some ts \<or> (\<exists>data. initialTreeState data = Some ts)"
  by (auto simp: setState_def Let_def split: option.splits if_splits)

lemma treeMountThrows_iff:
  "treeMountThrows a \<longleftrightarrow> (\<exists>data. exerciseData a = Some data \<and> evolutionOrder data = [])"
  by (auto simp: treeMountThrows_def initialTreeState_def newSlots_def effectTrunkTipX_def Let_def
           split: option.splits)

lemma rendered_Inr: "rendered r = Inr a \<longleftrightarrow> r = Some a"
  by (simp add: rendered_def split: option.splits)

lemma matrixEvent_Some:
  "matrixEvent f a = Some a' \<Longrightarrow>
     state a = Matrix \<and> (\<exists>data ms ms'. exerciseData a = Some data \<and> matrixExercise a = Some ms
        \<and> f data ms = Some ms' \<and> a' = a\<lparr>matrixExercise := Some ms'\<rparr>)"
  by (auto simp: matrixEvent_def split: if_splits option.splits)

lemma treeEvent_Some:
  "treeEvent f a = Some a' \<Longrightarrow>
     state a = Tree \<and> (\<exists>data ts ts'. exerciseData a = Some data \<and> treeExercise a = Some ts
        \<and> f data ts = Some ts' \<and> a' = a\<lparr>treeExercise := Some (fossilEffect data ts')\<rparr>)"
  by (auto simp: treeEvent_def split: if_splits option.splits)

lemma teacherEvent_Some:
  "teacherEvent f a = Some a' \<Longrightarrow>
     (\<exists>tz tz'. teacherZone a = Some tz \<and> f tz = Some tz' \<and> a' = a\<lparr>teacherZone := Some tz'\<rparr>)"
  by (auto simp: teacherEvent_def split: option.splits)

lemma settleGenerate_fields:
  "inFlight a = Some (tp, d, f) \<Longrightarrow>
   (case fst (generateExercise w tp d f) of
      Inl e \<Rightarrow> settleGenerate w rnd a
                 = a\<lparr>requests := requests a + snd (generateExercise w tp d f), inFlight := None,
                     error_app := Some errorMessage, loading := False\<rparr>
    | Inr data \<Rightarrow> state (settleGenerate w rnd a) = Info
                 \<and> exerciseData (settleGenerate w rnd a) = Some (shuffleData rnd data)
                 \<and> inFlight (settleGenerate w rnd a) = None
                 \<and> loading (settleGenerate w rnd a) = False
                 \<and> error_app (settleGenerate w rnd a) = error_app a
                 \<and> requests (settleGenerate w rnd a) = requests a + snd (generateExercise w tp d f)
                 \<and> (state a = Setup \<longrightarrow> treeExercise (settleGenerate w rnd a) = None))"
  by (auto simp: settleGenerate_def Let_def setState_fields split: sum.splits)


lemma treeInv_after:
  assumes "treeEvent f a = Some a'" and "appInv a"
    and "\<And>data ts ts'. treeInv ts \<Longrightarrow> f data ts = Some ts' \<Longrightarrow> treeInv ts'"
  shows "edge a a' \<and> appInv a' \<and> state a' = Tree"
proof -
  from treeEvent_Some [OF assms(1)] obtain data ts ts' where
    st: "state a = Tree" and tx: "treeExercise a = Some ts" and f: "f data ts = Some ts'"
    and a': "a' = a\<lparr>treeExercise := Some (fossilEffect data ts')\<rparr>"
    by blast
  have "treeInv ts" using assms(2) tx by (simp add: appInv_def)
  then have "treeInv (fossilEffect data ts')"
    using assms(3) [OF _ f] by (simp add: treeInv_fossilEffect)
  then show ?thesis
    using assms(2) st by (simp add: a' edge_def appInv_def)
qed

lemma step_edge_inv: "step e a = Inr a' \<Longrightarrow> appInv a \<Longrightarrow> edge a a' \<and> appInv a'"
proof -
  assume s: "step e a = Inr a'" and inv: "appInv a"
  have fl: "inFlight a \<noteq> None \<longrightarrow> state a = Setup \<and> loading a"
    and tr: "\<forall>ts. treeExercise a = Some ts \<longrightarrow> treeInv ts"
    using inv by (simp_all add: appInv_def)
  show ?thesis
  proof (cases e)
    case ClickHeader
    then have a': "a' = setState Setup a" using s by (simp add: step_def rendered_Inr)
    show ?thesis using fl tr
      by (auto simp: a' edge_def appInv_def setState_fields split: if_splits)
  next
    case (SetTopic x)
    then show ?thesis using s inv
      by (auto simp: step_def rendered_Inr edge_def appInv_def split: if_splits)
  next
    case (SetDifficulty d)
    then show ?thesis using s inv
      by (auto simp: step_def rendered_Inr edge_def appInv_def split: if_splits)
  next
    case ToggleFossils
    then show ?thesis using s inv
      by (auto simp: step_def rendered_Inr edge_def appInv_def split: if_splits)
  next
    case ClickGenerate
    then show ?thesis using s inv
      by (auto simp: step_def rendered_Inr edge_def appInv_def startGenerate_def split: if_splits)
  next
    case (Settle w rnd)
    then obtain tp d f where f: "inFlight a = Some (tp, d, f)" and a': "a' = settleGenerate w rnd a"
      using s by (auto simp: step_def rendered_Inr split: if_splits)
    have st: "state a = Setup" using fl f by simp
    show ?thesis
    proof (cases "fst (generateExercise w tp d f)")
      case (Inl err)
      then have "a' = a\<lparr>requests := requests a + snd (generateExercise w tp d f), inFlight := None,
                     error_app := Some errorMessage, loading := False\<rparr>"
        using settleGenerate_fields [OF f, of w rnd] a' by simp
      then show ?thesis using tr by (simp add: edge_def appInv_def)
    next
      case (Inr data)
      then show ?thesis
        using settleGenerate_fields [OF f, of w rnd] st
        by (simp add: a' edge_def appInv_def)
    qed
  next
    case (ClickDemo rnd)
    then have a': "a' = startDemo rnd a" and st: "state a = Setup" and nl: "\<not> loading a"
      using s by (auto simp: step_def rendered_Inr split: if_splits)
    show ?thesis using fl nl st
      by (auto simp: a' edge_def appInv_def startDemo_def setState_fields)
  next
    case ClickContinue
    then have a': "a' = setState Matrix a" and st: "state a = Info"
      using s by (auto simp: step_def rendered_Inr split: if_splits)
    show ?thesis using fl st
      by (auto simp: a' edge_def appInv_def setState_fields)
  next
    case (ClickCell t c)
    then show ?thesis using s inv
      by (auto simp: step_def rendered_Inr edge_def appInv_def dest!: matrixEvent_Some split: if_splits)
  next
    case ClickVerifier
    then show ?thesis using s inv
      by (auto simp: step_def rendered_Inr edge_def appInv_def dest!: matrixEvent_Some split: if_splits)
  next
    case ClickConstruireArbre
    then obtain b where m: "matrixEvent (\<lambda>data ms. if matrixButton ms = ConstruireArbre then Some ms else None) a = Some b"
      and a': "a' = setState Tree b"
      using s by (auto simp: step_def rendered_Inr split: option.splits if_splits)
    from matrixEvent_Some [OF m] obtain ms where
      st: "state a = Matrix" and mx: "matrixExercise a = Some ms" and su: "success ms"
      and b: "b = a\<lparr>matrixExercise := Some ms\<rparr>"
      by (auto simp: matrixButton_def split: if_splits)
    have "inFlight a = None" using fl st by (cases "inFlight a") simp_all
    then have fb: "inFlight b = None" using b by simp
    have "\<forall>ts. treeExercise a' = Some ts \<longrightarrow> treeInv ts"
      using setState_Tree [of b] tr b by (auto simp: a' treeInv_initial)
    then show ?thesis
      using st mx su fb by (simp add: a' b edge_def appInv_def setState_fields)
  next
    case (ClickItem ident ty)
    then have "treeEvent (\<lambda>data ts. if ident \<in> set (getAvailableItems data ts ty)
            then Some (handleItemClick ident ty ts) else None) a = Some a'"
      using s by (simp add: step_def rendered_Inr)
    moreover have "treeInv ts'"
      if "treeInv ts" and "(if ident \<in> set (getAvailableItems data ts ty)
            then Some (handleItemClick ident ty ts) else None) = Some ts'" for data ts ts'
      using that by (auto simp: treeInv_handleItemClick split: if_splits)
    ultimately show ?thesis
      using treeInv_after [where a = a and a' = a', OF _ inv] by blast
  next
    case (ClickSlot slotId)
    then have "treeEvent (\<lambda>data ts. if slotId \<in> set (map slot_id (slots ts))
            then Some (handleSlotClick slotId ts) else None) a = Some a'"
      using s by (simp add: step_def rendered_Inr)
    moreover have "treeInv ts'"
      if "treeInv ts" and "(if slotId \<in> set (map slot_id (slots ts))
            then Some (handleSlotClick slotId ts) else None) = Some ts'" for data :: ExerciseData and ts ts'
      using that by (auto simp: treeInv_handleSlotClick split: if_splits)
    ultimately show ?thesis
      using treeInv_after [where a = a and a' = a', OF _ inv] by blast
  next
    case ClickNouveau
    then obtain b where t: "treeEvent (\<lambda>data ts. if success_tree ts then Some ts else None) a = Some b"
      and a': "a' = setState Setup (b\<lparr>topic := []\<rparr>)"
      using s by (auto simp: step_def rendered_Inr split: option.splits)
    have "treeInv ts'"
      if "treeInv ts" and "(if success_tree ts then Some ts else None) = Some ts'"
      for data :: ExerciseData and ts ts'
      using that by (auto split: if_splits)
    with t have "edge a b \<and> appInv b \<and> state b = Tree"
      using treeInv_after [where a = a and a' = b, OF _ inv] by blast
    then have "appInv b" and "state b = Tree" by simp_all
    then show ?thesis
      using treeEvent_Some [OF t]
      by (auto simp: a' edge_def appInv_def setState_fields)
  next
    case ClickEspaceProf
    then show ?thesis using s inv
      by (auto simp: step_def rendered_Inr edge_def appInv_def split: if_splits)
  next
    case (TypePassword x)
    then show ?thesis using s inv
      by (auto simp: step_def rendered_Inr edge_def appInv_def dest!: teacherEvent_Some split: if_splits)
  next
    case SubmitLogin
    then show ?thesis using s inv
      by (auto simp: step_def rendered_Inr edge_def appInv_def dest!: teacherEvent_Some split: if_splits)
  next
    case CloseTeacherZone
    then show ?thesis using s inv
      by (auto simp: step_def rendered_Inr edge_def appInv_def split: if_splits option.splits)
  qed
qed

lemma run_snoc:
  "run (es @ [e]) a =
     (case run es a of None \<Rightarrow> None
      | Some a' \<Rightarrow> (case step e a' of Inl err \<Rightarrow> None | Inr a'' \<Rightarrow> Some a''))"
  by (induction es arbitrary: a) (auto split: option.splits sum.splits)

lemma run_append: "run (es1 @ es2) a = (case run es1 a of None \<Rightarrow> None | Some a' \<Rightarrow> run es2 a')"
  by (induction es1 arbitrary: a) (auto split: option.splits sum.splits)

lemma appInv_initial: "appInv initialApp"
  by (simp add: appInv_def initialApp_def)

lemma run_inv: "run es initialApp = Some a \<Longrightarrow> appInv a \<and> state a \<noteq> Loading \<and> state a \<noteq> Success"
proof (induction es arbitrary: a rule: rev_induct)
  case Nil
  then show ?case by (auto simp: appInv_initial) (simp_all add: initialApp_def)
next
  case (snoc e es)
  from snoc.prems obtain b where b: "run es initialApp = Some b" and s: "step e b = Inr a"
    by (auto simp: run_snoc split: option.splits sum.splits)
  from snoc.IH [OF b] step_edge_inv [OF s] show ?case
    by (auto simp: edge_def)
qed

lemma run_tree_via_matrix:
  "run es initialApp = Some a \<Longrightarrow> state a = Tree \<Longrightarrow>
     \<exists>es1 es2 b ms. es = es1 @ es2 \<and> run es1 initialApp = Some b \<and> state b = Matrix
        \<and> matrixExercise b = Some ms \<and> success ms"
proof (induction es arbitrary: a rule: rev_induct)
  case Nil
  then show ?case by (auto simp: initialApp_def)
next
  case (snoc e es)
  from snoc.prems obtain b where b: "run es initialApp = Some b" and s: "step e b = Inr a"
    by (auto simp: run_snoc split: option.splits sum.splits)
  have inv: "appInv b" using run_inv [OF b] by simp
  from step_edge_inv [OF s inv] snoc.prems(2)
  consider "state b = Tree" | "state b = Matrix \<and> (\<exists>ms. matrixExercise b = Some ms \<and> success ms)"
    by (auto simp: edge_def)
  then show ?case
  proof cases
    case 1
    from snoc.IH [OF b 1] obtain es1 es2 c ms where
      "es = es1 @ es2" "run es1 initialApp = Some c" "state c = Matrix"
      "matrixExercise c = Some ms" "success ms" by blast
    then have "es @ [e] = es1 @ (es2 @ [e])" by simp
    then show ?thesis
      using \<open>run es1 initialApp = Some c\<close> \<open>state c = Matrix\<close> \<open>matrixExercise c = Some ms\<close> \<open>success ms\<close>
      by blast
  next
    case 2
    then obtain ms where "matrixExercise b = Some ms" "success ms" by blast
    moreover have "es @ [e] = es @ [e]" by simp
    ultimately show ?thesis using b 2 by blast
  qed
qed



text \<open>
  What holds of the tree builder in every reachable state: the non-empty ids that fill
  slots are pairwise different, and the selected item is not one of them.
\<close>

lemma placedIds_mem:
  "j < length ss \<Longrightarrow> filledWithId (ss ! j) = Some ident \<Longrightarrow> ident \<noteq> [] \<Longrightarrow>
     ident \<in> set (placedIds ss)"
proof (induction ss arbitrary: j)
  case Nil then show ?case by simp
next
  case (Cons s ss)
  then show ?case by (cases j) (auto simp: placedIds_Cons truthy_def)
qed

lemma placedIds_distinct_slots:
  "distinct (placedIds ss) \<Longrightarrow> i < length ss \<Longrightarrow> j < length ss \<Longrightarrow>
     filledWithId (ss ! i) = Some ident \<Longrightarrow> filledWithId (ss ! j) = Some ident \<Longrightarrow>
     ident \<noteq> [] \<Longrightarrow> i = j"
proof (induction ss arbitrary: i j)
  case Nil then show ?case by simp
next
  case (Cons s ss)
  show ?case
  proof (cases i)
    case 0
    show ?thesis
    proof (cases j)
      case 0 with \<open>i = 0\<close> show ?thesis by simp
    next
      case (Suc j')
      then have "ident \<in> set (placedIds ss)"
        using Cons.prems placedIds_mem [of j' ss ident] by simp
      then show ?thesis
        using Cons.prems \<open>i = 0\<close> by (simp add: placedIds_Cons truthy_def)
    qed
  next
    case (Suc i')
    show ?thesis
    proof (cases j)
      case 0
      have "ident \<in> set (placedIds ss)"
        using Cons.prems Suc placedIds_mem [of i' ss ident] by simp
      then show ?thesis
        using Cons.prems 0 by (simp add: placedIds_Cons truthy_def)
    next
      case (Suc j')
      have "distinct (placedIds ss)" using Cons.prems(1) by (simp add: placedIds_Cons split: if_splits)
      then have "i' = j'"
        using Cons.prems \<open>i = Suc i'\<close> Suc by (intro Cons.IH) simp_all
      then show ?thesis using \<open>i = Suc i'\<close> Suc by simp
    qed
  qed
qed

lemma tree_builder_nonempty_ids:
  assumes "run es initialApp = Some a" and "treeExercise a = Some ts"
  shows "distinct (placedIds (slots ts))"
    and "selectedItemId ts = Some (ident, ty) \<Longrightarrow> ident \<notin> set (placedIds (slots ts))"
    and "i < length (slots ts) \<Longrightarrow> j < length (slots ts) \<Longrightarrow>
         filledWithId (slots ts ! i) = Some ident \<Longrightarrow> filledWithId (slots ts ! j) = Some ident \<Longrightarrow>
         ident \<noteq> [] \<Longrightarrow> i = j"
proof -
  have inv: "treeInv ts" using run_inv [OF assms(1)] assms(2) by (simp add: appInv_def)
  then show d: "distinct (placedIds (slots ts))" by (simp add: treeInv_def)
  show "selectedItemId ts = Some (ident, ty) \<Longrightarrow> ident \<notin> set (placedIds (slots ts))"
    using inv by (simp add: treeInv_def)
  show "i < length (slots ts) \<Longrightarrow> j < length (slots ts) \<Longrightarrow>
         filledWithId (slots ts ! i) = Some ident \<Longrightarrow> filledWithId (slots ts ! j) = Some ident \<Longrightarrow>
         ident \<noteq> [] \<Longrightarrow> i = j"
    using d by (rule placedIds_distinct_slots)
qed

text \<open>
  Claim C9, at a payload in which one taxon has the empty string as its id. The student
  reaches the tree builder with all four slots empty and the taxon in the inventory;
  after selecting it and placing it in the first taxon slot the inventory still offers
  it (the filter on truthy values drops the empty id from the placed ids); selecting
  and placing it again fills the second taxon slot, so the same id fills two slots.
\<close>

theorem empty_id_fills_two_slots:
  "map_option state (run emptyIdTreeRun initialApp) = Some Tree
   \<and> map_option filledIds (run emptyIdTreeRun initialApp) = Some [None, None, None, None]
   \<and> map_option (inventoryIds taxon) (run emptyIdTreeRun initialApp) = Some [[], ''t3'', ''t2'']
   \<and> map_option filledIds (run (emptyIdTreeRun @ [ClickItem [] taxon, ClickSlot ''taxon-0'']) initialApp)
       = Some [None, Some [], None, None]
   \<and> map_option (inventoryIds taxon)
        (run (emptyIdTreeRun @ [ClickItem [] taxon, ClickSlot ''taxon-0'']) initialApp)
       = Some [[], ''t3'', ''t2'']
   \<and> map_option filledIds (run emptyIdRun initialApp) = Some [None, Some [], None, Some []]"
  by code_simp


text \<open>
  Claim C5. In every state \<open>a\<close> the application reaches from its initial state: the
  screen is never \<open>Loading\<close> nor \<open>Success\<close>; the header leads to \<open>Setup\<close>; every event
  that has a next state leaves the screen as it is, leads to \<open>Setup\<close>, or follows one
  of the three forward edges: \<open>Setup\<close> to \<open>Info\<close> with a payload set, \<open>Info\<close> to
  \<open>Matrix\<close>, \<open>Matrix\<close> to \<open>Tree\<close> with matrix success declared; so from \<open>Tree\<close> the only
  other screen is \<open>Setup\<close>. If the screen is \<open>Tree\<close>, an earlier state of the same run
  was on the \<open>Matrix\<close> screen with success declared.
\<close>

theorem app_state_machine:
  assumes "run es initialApp = Some a"
  shows "state a \<noteq> Loading \<and> state a \<noteq> Success
     \<and> (\<exists>a'. step ClickHeader a = Inr a' \<and> state a' = Setup)
     \<and> (step e a = Inr a' \<longrightarrow>
          state a' = state a \<or> state a' = Setup
          \<or> (state a = Setup \<and> state a' = Info \<and> exerciseData a' \<noteq> None)
          \<or> (state a = Info \<and> state a' = Matrix)
          \<or> (state a = Matrix \<and> state a' = Tree
              \<and> (\<exists>ms. matrixExercise a = Some ms \<and> success ms)))
     \<and> (state a = Tree \<longrightarrow>
          (\<exists>es1 es2 b ms. es = es1 @ es2 \<and> run es1 initialApp = Some b \<and> state b = Matrix
             \<and> matrixExercise b = Some ms \<and> success ms))"
proof (intro conjI impI)
  show "state a \<noteq> Loading" "state a \<noteq> Success"
    using run_inv [OF assms] by simp_all
  show "\<exists>a'. step ClickHeader a = Inr a' \<and> state a' = Setup"
    by (simp add: step_def setState_fields)
  show "state a' = state a \<or> state a' = Setup
          \<or> (state a = Setup \<and> state a' = Info \<and> exerciseData a' \<noteq> None)
          \<or> (state a = Info \<and> state a' = Matrix)
          \<or> (state a = Matrix \<and> state a' = Tree
              \<and> (\<exists>ms. matrixExercise a = Some ms \<and> success ms))"
    if "step e a = Inr a'"
    using step_edge_inv [OF that] run_inv [OF assms] by (simp add: edge_def)
  show "\<exists>es1 es2 b ms. es = es1 @ es2 \<and> run es1 initialApp = Some b \<and> state b = Matrix
             \<and> matrixExercise b = Some ms \<and> success ms" if "state a = Tree"
    using run_tree_via_matrix [OF assms that] .
qed

theorem app_state_machine_witness:
  "map_option state (run tinyMatrixRun initialApp) = Some Matrix
   \<and> map_option state (run tinyRun initialApp) = Some Tree
   \<and> map_option state (run (tinyRun @ [ClickHeader]) initialApp) = Some Setup
   \<and> (\<exists>b a ms. run tinyMatrixRun initialApp = Some b \<and> step ClickConstruireArbre b = Inr a
         \<and> state b = Matrix \<and> state a = Tree \<and> matrixExercise b = Some ms \<and> success ms)
   \<and> (\<exists>es1 es2 b ms. tinyRun = es1 @ es2 \<and> run es1 initialApp = Some b \<and> state b = Matrix
         \<and> matrixExercise b = Some ms \<and> success ms)"
proof -
  have m: "map_option state (run tinyMatrixRun initialApp) = Some Matrix" by code_simp
  have t: "map_option state (run tinyRun initialApp) = Some Tree" by code_simp
  have h: "map_option state (run (tinyRun @ [ClickHeader]) initialApp) = Some Setup" by code_simp
  from t obtain a where a: "run tinyRun initialApp = Some a" and s: "state a = Tree" by auto
  from m obtain b where b: "run tinyMatrixRun initialApp = Some b" and sb: "state b = Matrix" by auto
  have st: "step ClickConstruireArbre b = Inr a"
    using a b by (simp add: tinyRun_def run_snoc split: sum.splits)
  from app_state_machine [OF b, of ClickConstruireArbre a] st s sb
  obtain ms where "matrixExercise b = Some ms" and "success ms" by auto
  then have 1: "\<exists>b a ms. run tinyMatrixRun initialApp = Some b \<and> step ClickConstruireArbre b = Inr a
         \<and> state b = Matrix \<and> state a = Tree \<and> matrixExercise b = Some ms \<and> success ms"
    using b st sb s by blast
  from app_state_machine [OF a] s
  have "\<exists>es1 es2 b ms. tinyRun = es1 @ es2 \<and> run es1 initialApp = Some b \<and> state b = Matrix
         \<and> matrixExercise b = Some ms \<and> success ms"
    by blast
  with m t h 1 show ?thesis by blast
qed

section \<open>Properties of the generation service\<close>

lemma forEachItem_None:
  "forEachItem ns items assigned = None \<longleftrightarrow>
     (\<exists>item \<in> set items. item = JNull \<or> toPropertyKey ns (property ''taxonId'' item) = None)"
  by (induction items arbitrary: assigned) (auto split: option.splits)

lemma readParsed_None: "readParsed ns diff rawData = None \<longleftrightarrow> readThrows ns rawData"
proof (cases "rawData = JNull")
  case True
  then show ?thesis by (simp add: readParsed_def readThrows_def)
next
  case False
  show ?thesis
  proof (cases "truthy_json (property ''matrixList'' rawData)")
    case no: False
    with False show ?thesis by (simp add: readParsed_def readThrows_def)
  next
    case yes: True
    show ?thesis
    proof (cases "\<exists>items. property ''matrixList'' rawData = Some (JArr items)")
      case True
      then obtain items where "property ''matrixList'' rawData = Some (JArr items)" by blast
      with False yes show ?thesis
        using forEachItem_None [of ns items "[]"]
        by (cases "forEachItem ns items []") (auto simp: readParsed_def readThrows_def)
    next
      case na: False
      with False yes show ?thesis
        by (auto simp: readParsed_def readThrows_def split: option.splits json.splits)
    qed
  qed
qed

lemma generateExercise_json_Inl:
  "fst (generateExercise_json w tp d f) = Inl e \<longleftrightarrow>
     (e = ApiKeyIsMissing \<and> \<not> truthy (env_API_KEY w))
     \<or> (truthy (env_API_KEY w) \<and>
         ((\<exists>m. e = Rejection m
             \<and> ai_generateContent w \<lparr>req_topic = tp, req_difficulty = d, req_includeFossils = f\<rparr> = Inl m)
          \<or> (e = ImpossibleDeGenererLExercice
             \<and> (\<exists>r. ai_generateContent w \<lparr>req_topic = tp, req_difficulty = d, req_includeFossils = f\<rparr> = Inr r
                    \<and> \<not> truthy r))
          \<or> (\<exists>m body. e = JsonSyntaxError m
             \<and> ai_generateContent w \<lparr>req_topic = tp, req_difficulty = d, req_includeFossils = f\<rparr>
                 = Inr (Some body)
             \<and> body \<noteq> [] \<and> JSON_parse_any w body = Inl m)
          \<or> (\<exists>body rawData. e = TypeError
             \<and> ai_generateContent w \<lparr>req_topic = tp, req_difficulty = d, req_includeFossils = f\<rparr>
                 = Inr (Some body)
             \<and> body \<noteq> [] \<and> JSON_parse_any w body = Inr rawData
             \<and> readThrows (Number_toString w) rawData)))"
  by (auto simp: generateExercise_json_def truthy_def readParsed_None [of _ d, symmetric]
           split: if_splits sum.splits option.splits)

lemma generateExercise_json_requests:
  "snd (generateExercise_json w tp d f) = (if truthy (env_API_KEY w) then 1 else 0)"
  by (auto simp: generateExercise_json_def split: if_splits sum.splits option.splits)


lemma readParsed_difficulty: "readParsed ns d v = Some p \<Longrightarrow> j_difficulty p = d"
  by (auto simp: readParsed_def split: if_splits option.splits)

lemma generateExercise_json_Inr:
  "fst (generateExercise_json w tp d f) = Inr p \<Longrightarrow>
     j_difficulty p = d \<and> snd (generateExercise_json w tp d f) = 1"
  by (auto simp: generateExercise_json_def readParsed_difficulty
           split: if_splits sum.splits option.splits)

lemma typedWorld_fails:
  "n \<le> 1 \<Longrightarrow> \<exists>e. generateExercise (typedWorld n None) tp d f = (Inl e, n)"
  by (cases "n = 0") (auto simp: generateExercise_def typedWorld_def truthy_def)

lemma typedWorld_answers:
  "generateExercise (typedWorld 1 (Some raw)) tp d f
     = (Inr \<lparr>title = raw_title raw, difficulty = d, taxons = raw_taxons raw,
             characters = raw_characters raw,
             correctMatrix = buildCorrectMatrix (matrixList raw),
             evolutionOrder = raw_evolutionOrder raw\<rparr>, 1)"
  by (simp add: generateExercise_def typedWorld_def truthy_def)

lemma decodePayload_typed:
  assumes "decodePayload p = Some data"
  shows "\<exists>raw. generateExercise (typedWorld 1 (Some raw)) tp (j_difficulty p) f = (Inr data, 1)"
proof -
  from assms obtain t ts cs items steps where
    data: "data = \<lparr>title = t, difficulty = j_difficulty p, taxons = ts, characters = cs,
                   correctMatrix = buildCorrectMatrix (Some items), evolutionOrder = steps\<rparr>"
    by (auto simp: decodePayload_def split: option.splits)
  have "generateExercise (typedWorld 1 (Some \<lparr>raw_title = t, raw_taxons = ts,
           raw_characters = cs, matrixList = Some items, raw_evolutionOrder = steps\<rparr>))
          tp (j_difficulty p) f = (Inr data, 1)"
    unfolding typedWorld_answers data by simp
  then show ?thesis by blast
qed

lemma settleGenerate_json_typed:
  assumes i: "inFlight a = Some (tp, d, f)" and s: "settleGenerate_json w rnd a = Some a'"
  shows "\<exists>w'. settleGenerate w' rnd a = a'"
proof (cases "\<exists>data. state a' = Info \<and> fst (generateExercise_json w tp d f) \<noteq> Inl TypeError
           \<and> (\<exists>p. fst (generateExercise_json w tp d f) = Inr p
                \<and> iterable (j_taxons p) \<and> iterable (j_characters p)
                \<and> decodePayload p = Some data)")
  case True
  then obtain p data where p: "fst (generateExercise_json w tp d f) = Inr p"
    and it: "iterable (j_taxons p)" "iterable (j_characters p)"
    and dec: "decodePayload p = Some data" by blast
  from generateExercise_json_Inr [OF p] have jd: "j_difficulty p = d"
    and n: "snd (generateExercise_json w tp d f) = 1" by simp_all
  from decodePayload_typed [OF dec, of tp f] jd obtain raw where
    raw: "generateExercise (typedWorld 1 (Some raw)) tp d f = (Inr data, 1)" by auto
  have "settleGenerate (typedWorld 1 (Some raw)) rnd a = a'"
    using s i p it dec n raw by (simp add: settleGenerate_json_def settleGenerate_def Let_def)
  then show ?thesis by blast
next
  case False
  have n: "snd (generateExercise_json w tp d f) \<le> 1"
    by (simp add: generateExercise_json_requests)
  have a': "a' = a\<lparr>requests := requests a + snd (generateExercise_json w tp d f),
                   inFlight := None, error_app := Some errorMessage, loading := False\<rparr>"
  proof (cases "fst (generateExercise_json w tp d f)")
    case (Inl e)
    with s i show ?thesis by (simp add: settleGenerate_json_def Let_def)
  next
    case (Inr p)
    show ?thesis
    proof (cases "iterable (j_taxons p) \<and> iterable (j_characters p)")
      case no: False
      with s i Inr show ?thesis by (auto simp: settleGenerate_json_def Let_def)
    next
      case yes: True
      with s i Inr obtain data where dec: "decodePayload p = Some data"
        by (auto simp: settleGenerate_json_def Let_def split: option.splits)
      with s i Inr yes have "a' = (setState Info
             (a\<lparr>requests := requests a + snd (generateExercise_json w tp d f), inFlight := None,
                exerciseData := Some (shuffleData rnd data)\<rparr>))\<lparr>loading := False\<rparr>"
        by (simp add: settleGenerate_json_def Let_def)
      then have "state a' = Info" by (simp add: setState_fields)
      with False Inr yes dec show ?thesis by auto
    qed
  qed
  from typedWorld_fails [OF n, of tp d f] obtain e where
    "generateExercise (typedWorld (snd (generateExercise_json w tp d f)) None) tp d f
       = (Inl e, snd (generateExercise_json w tp d f))" by blast
  then have "settleGenerate (typedWorld (snd (generateExercise_json w tp d f)) None) rnd a = a'"
    using i a' by (simp add: settleGenerate_def Let_def)
  then show ?thesis by blast
qed

text \<open>
  Whatever \<^verbatim>\<open>startExercise\<close> makes of a response of any shape, it makes of some response
  of the declared shape or of a failure with as many requests: the states the
  application reaches are the same with both descriptions of the service.
\<close>

lemma settleGenerate_json_reachable:
  assumes "run es initialApp = Some a" and "inFlight a = Some (tp, d, f)"
    and "settleGenerate_json w rnd a = Some a'"
  shows "\<exists>w'. run (es @ [Settle w' rnd]) initialApp = Some a'"
proof -
  from settleGenerate_json_typed [OF assms(2,3)] obtain w' where
    "settleGenerate w' rnd a = a'" by blast
  then have "step (Settle w' rnd) a = Inr a'"
    using assms(2) by (simp add: step_def rendered_def)
  then have "run (es @ [Settle w' rnd]) initialApp = Some a'"
    using assms(1) by (simp add: run_snoc)
  then show ?thesis by blast
qed

text \<open>
  Claim C4, amended. \<^verbatim>\<open>generateExercise\<close> fails in exactly four ways. Without a
  credential it throws before any request is issued. With a credential one request is
  issued, and it throws when the request is rejected (the error is passed on) or the
  response has no text; it passes on the \<^verbatim>\<open>SyntaxError\<close> of \<^verbatim>\<open>JSON.parse\<close> when the text is
  not JSON; and it throws a \<^verbatim>\<open>TypeError\<close> when the parsed value cannot be read
  (\<open>readThrows\<close>). It fails in no other case. In every failure case, when the promise
  of a request that is under way settles, the application is on the setup screen and
  stays there, shows the one fixed error message, clears the loading flag, and has no
  request under way any more: nothing is retried.
\<close>

theorem generateExercise_json_failures:
  "(fst (generateExercise_json w tp d f) = Inl e \<longleftrightarrow>
     (e = ApiKeyIsMissing \<and> \<not> truthy (env_API_KEY w))
     \<or> (truthy (env_API_KEY w) \<and>
         ((\<exists>m. e = Rejection m
             \<and> ai_generateContent w \<lparr>req_topic = tp, req_difficulty = d, req_includeFossils = f\<rparr> = Inl m)
          \<or> (e = ImpossibleDeGenererLExercice
             \<and> (\<exists>r. ai_generateContent w \<lparr>req_topic = tp, req_difficulty = d, req_includeFossils = f\<rparr> = Inr r
                    \<and> \<not> truthy r))
          \<or> (\<exists>m body. e = JsonSyntaxError m
             \<and> ai_generateContent w \<lparr>req_topic = tp, req_difficulty = d, req_includeFossils = f\<rparr>
                 = Inr (Some body)
             \<and> body \<noteq> [] \<and> JSON_parse_any w body = Inl m)
          \<or> (\<exists>body rawData. e = TypeError
             \<and> ai_generateContent w \<lparr>req_topic = tp, req_difficulty = d, req_includeFossils = f\<rparr>
                 = Inr (Some body)
             \<and> body \<noteq> [] \<and> JSON_parse_any w body = Inr rawData
             \<and> readThrows (Number_toString w) rawData))))
   \<and> snd (generateExercise_json w tp d f) = (if truthy (env_API_KEY w) then 1 else 0)
   \<and> (run es initialApp = Some a \<and> inFlight a = Some (tp, d, f)
        \<and> fst (generateExercise_json w tp d f) = Inl e \<longrightarrow>
        state a = Setup
        \<and> settleGenerate_json w rnd a
            = Some (a\<lparr>requests := requests a + snd (generateExercise_json w tp d f),
                      inFlight := None, error_app := Some errorMessage, loading := False\<rparr>))"
proof (intro conjI impI)
  show "fst (generateExercise_json w tp d f) = Inl e \<longleftrightarrow>
     (e = ApiKeyIsMissing \<and> \<not> truthy (env_API_KEY w))
     \<or> (truthy (env_API_KEY w) \<and>
         ((\<exists>m. e = Rejection m
             \<and> ai_generateContent w \<lparr>req_topic = tp, req_difficulty = d, req_includeFossils = f\<rparr> = Inl m)
          \<or> (e = ImpossibleDeGenererLExercice
             \<and> (\<exists>r. ai_generateContent w \<lparr>req_topic = tp, req_difficulty = d, req_includeFossils = f\<rparr> = Inr r
                    \<and> \<not> truthy r))
          \<or> (\<exists>m body. e = JsonSyntaxError m
             \<and> ai_generateContent w \<lparr>req_topic = tp, req_difficulty = d, req_includeFossils = f\<rparr>
                 = Inr (Some body)
             \<and> body \<noteq> [] \<and> JSON_parse_any w body = Inl m)
          \<or> (\<exists>body rawData. e = TypeError
             \<and> ai_generateContent w \<lparr>req_topic = tp, req_difficulty = d, req_includeFossils = f\<rparr>
                 = Inr (Some body)
             \<and> body \<noteq> [] \<and> JSON_parse_any w body = Inr rawData
             \<and> readThrows (Number_toString w) rawData)))"
    by (rule generateExercise_json_Inl)
  show "snd (generateExercise_json w tp d f) = (if truthy (env_API_KEY w) then 1 else 0)"
    by (rule generateExercise_json_requests)
next
  assume h: "run es initialApp = Some a \<and> inFlight a = Some (tp, d, f)
        \<and> fst (generateExercise_json w tp d f) = Inl e"
  then have inv: "appInv a" using run_inv by blast
  from h inv show "state a = Setup" by (simp add: appInv_def)
  from h show "settleGenerate_json w rnd a
            = Some (a\<lparr>requests := requests a + snd (generateExercise_json w tp d f),
                      inFlight := None, error_app := Some errorMessage, loading := False\<rparr>)"
    by (simp add: settleGenerate_json_def Let_def)
qed

text \<open>
  Claim C4 as stated names two ways to fail. In both worlds here the credential is
  present, the request succeeds and the response carries a text, and \<^verbatim>\<open>generateExercise\<close>
  still fails: on the text \<^verbatim>\<open>null\<close> with the \<^verbatim>\<open>TypeError\<close> of \<^verbatim>\<open>rawData.matrixList\<close>, on a
  text that is not JSON with the \<^verbatim>\<open>SyntaxError\<close> of \<^verbatim>\<open>JSON.parse\<close>.
\<close>

theorem generateExercise_json_unlisted_failures:
  "truthy (env_API_KEY nullWorld)
   \<and> ai_generateContent nullWorld
        \<lparr>req_topic = [], req_difficulty = Facile, req_includeFossils = False\<rparr> = Inr (Some ''null'')
   \<and> JSON_parse_any nullWorld ''null'' = Inr JNull
   \<and> generateExercise_json nullWorld [] Facile False = (Inl TypeError, 1)
   \<and> truthy (env_API_KEY malformedWorld)
   \<and> ai_generateContent malformedWorld
        \<lparr>req_topic = [], req_difficulty = Facile, req_includeFossils = False\<rparr>
       = Inr (Some ''Sorry, I cannot help with that.'')
   \<and> generateExercise_json malformedWorld [] Facile False
       = (Inl (JsonSyntaxError ''Unexpected token S in JSON at position 0''), 1)"
  by code_simp

theorem generateExercise_json_failures_witness:
  "run [ClickGenerate] initialApp = Some (startGenerate initialApp)
   \<and> inFlight (startGenerate initialApp) = Some ([], Facile, False)
   \<and> fst (generateExercise_json nullWorld [] Facile False) = Inl TypeError
   \<and> readThrows (Number_toString nullWorld) JNull
   \<and> state (startGenerate initialApp) = Setup
   \<and> map_option state (settleGenerate_json nullWorld halfSource (startGenerate initialApp))
       = Some Setup
   \<and> map_option error_app (settleGenerate_json nullWorld halfSource (startGenerate initialApp))
       = Some (Some errorMessage)
   \<and> map_option requests (settleGenerate_json nullWorld halfSource (startGenerate initialApp))
       = Some 1
   \<and> map_option inFlight (settleGenerate_json nullWorld halfSource (startGenerate initialApp))
       = Some None
   \<and> map_option loading (settleGenerate_json nullWorld halfSource (startGenerate initialApp))
       = Some False
   \<and> generateExercise_json keylessWorld [] Facile False = (Inl ApiKeyIsMissing, 0)
   \<and> generateExercise_json offlineWorld [] Facile False = (Inl (Rejection ''fetch failed''), 1)
   \<and> generateExercise_json silentWorld [] Facile False = (Inl ImpossibleDeGenererLExercice, 1)
   \<and> fst (generateExercise_json nullItemWorld [] Facile False) = Inl TypeError"
proof -
  have r1: "step ClickGenerate initialApp = Inr (startGenerate initialApp)"
    by (simp add: step_def rendered_def initialApp_def)
  then have r: "run [ClickGenerate] initialApp = Some (startGenerate initialApp)"
    by simp
  have i: "inFlight (startGenerate initialApp) = Some ([], Facile, False)"
    by (simp add: startGenerate_def initialApp_def)
  have g: "fst (generateExercise_json nullWorld [] Facile False) = Inl TypeError"
    by code_simp
  have n: "snd (generateExercise_json nullWorld [] Facile False) = 1"
    by code_simp
  have rt: "readThrows (Number_toString nullWorld) JNull" by code_simp
  from generateExercise_json_failures
         [of nullWorld "[]" Facile False TypeError "[ClickGenerate]" "startGenerate initialApp"
             halfSource] r i g
  have st: "state (startGenerate initialApp) = Setup"
    and s: "settleGenerate_json nullWorld halfSource (startGenerate initialApp)
            = Some ((startGenerate initialApp)
                 \<lparr>requests := requests (startGenerate initialApp)
                                + snd (generateExercise_json nullWorld [] Facile False),
                   inFlight := None, error_app := Some errorMessage, loading := False\<rparr>)"
    by blast+
  have c: "map_option state (settleGenerate_json nullWorld halfSource (startGenerate initialApp))
             = Some Setup"
    "map_option error_app (settleGenerate_json nullWorld halfSource (startGenerate initialApp))
             = Some (Some errorMessage)"
    "map_option requests (settleGenerate_json nullWorld halfSource (startGenerate initialApp))
             = Some 1"
    "map_option inFlight (settleGenerate_json nullWorld halfSource (startGenerate initialApp))
             = Some None"
    "map_option loading (settleGenerate_json nullWorld halfSource (startGenerate initialApp))
             = Some False"
    unfolding s n by (simp_all add: startGenerate_def initialApp_def)
  have k: "\<not> truthy (env_API_KEY keylessWorld)" by code_simp
  from generateExercise_json_failures [of keylessWorld "[]" Facile False ApiKeyIsMissing] k
  have "fst (generateExercise_json keylessWorld [] Facile False) = Inl ApiKeyIsMissing"
    and "snd (generateExercise_json keylessWorld [] Facile False) = 0"
    by simp_all
  then have kw: "generateExercise_json keylessWorld [] Facile False = (Inl ApiKeyIsMissing, 0)"
    by (simp add: prod_eq_iff)
  have ow: "generateExercise_json offlineWorld [] Facile False = (Inl (Rejection ''fetch failed''), 1)"
    by code_simp
  have sw: "generateExercise_json silentWorld [] Facile False = (Inl ImpossibleDeGenererLExercice, 1)"
    by code_simp
  have rti: "readThrows (Number_toString nullItemWorld) (JObj [(''matrixList'', JArr [JNull])])"
    by code_simp
  have tk: "truthy (env_API_KEY nullItemWorld)"
    and gc: "ai_generateContent nullItemWorld
        \<lparr>req_topic = [], req_difficulty = Facile, req_includeFossils = False\<rparr>
          = Inr (Some ''{matrixList: [null]}'')"
    and jp: "JSON_parse_any nullItemWorld ''{matrixList: [null]}''
          = Inr (JObj [(''matrixList'', JArr [JNull])])"
    by code_simp+
  from generateExercise_json_failures [of nullItemWorld "[]" Facile False TypeError] rti tk gc jp
  have ni: "fst (generateExercise_json nullItemWorld [] Facile False) = Inl TypeError"
    by simp
  show ?thesis
    using r i g rt st c kw ow sw ni by blast
qed

end
